theory Spec2Isabelle
  imports Main "HOL-Library.Word"
begin

section \<open>JavaScript values the adapter handles\<close>

text \<open>
  A property that the code reads from a decoded JSON object, or from a tool's arguments,
  is either absent (\<open>undefined\<close>, here \<open>None\<close>) or has the type its TypeScript interface
  declares. The helpers below are the JavaScript operations the source applies to such
  properties: interpolation into a template literal, truthiness, \<open>a || b\<close> and
  \<open>Array.prototype.includes\<close>.
\<close>

fun digit_char :: "nat \<Rightarrow> char" where
  "digit_char n = char_of (48 + n)"

text \<open>Decimal rendering of a whole number, as a template literal prints it.\<close>

fun show_nat :: "nat \<Rightarrow> string" where
  "show_nat n = (if n < 10 then [digit_char n] else show_nat (n div 10) @ [digit_char (n mod 10)])"

declare show_nat.simps [simp del]

text \<open>\<open>`${v}`\<close> for a string property that may be undefined.\<close>

fun to_str :: "string option \<Rightarrow> string" where
  "to_str None = ''undefined''"
| "to_str (Some s) = s"

text \<open>Truthiness: undefined and the empty string are falsy, so is \<open>false\<close>.\<close>

fun truthy_str :: "string option \<Rightarrow> bool" where
  "truthy_str None = False"
| "truthy_str (Some s) = (s \<noteq> [])"

fun truthy_bool :: "bool option \<Rightarrow> bool" where
  "truthy_bool None = False"
| "truthy_bool (Some b) = b"

text \<open>\<open>a || b\<close> on optional strings: the left operand when it is truthy, else the right one.\<close>

definition or_js :: "string option \<Rightarrow> string option \<Rightarrow> string option" where
  "or_js a b = (if truthy_str a then a else b)"

text \<open>\<open>xs.includes(v)\<close> for an array of strings: undefined is never included.\<close>

fun includes_js :: "string list \<Rightarrow> string option \<Rightarrow> bool" where
  "includes_js xs None = False"
| "includes_js xs (Some s) = (s \<in> set xs)"

section \<open>Data model\<close>

text \<open>
  \<open>SpaceInfo\<close>, also the shape read from \<open>space_info\<close> of an availability response.
  \<open>audio_size\<close> is a whole number of bytes below \<open>2^53\<close>, the integers that a JSON
  number holds exactly.
\<close>

record SpaceInfo =
  id_s :: "string option"
  title :: "string option"
  creator_name :: "string option"
  creator_screen_name :: "string option"
  start_date :: "string option"
  has_audio :: "bool option"
  has_transcript :: "bool option"
  audio_size :: "53 word option"
  state_s :: "string option"

text \<open>
  \<open>makeApiRequest\<close> returns \<open>any\<close>. A decoded response body is an object with the
  properties that the interfaces \<open>DownloadResponse\<close>, \<open>StatusResponse\<close>,
  \<open>TranscribeResponse\<close>, \<open>TranscriptionStatusResponse\<close>, \<open>SpaceAvailabilityResponse\<close> and
  the reply of \<open>/api/spaces\<close> declare, each of them possibly absent.
\<close>

record json_obj =
  status :: "string option"
  message :: "string option"
  error :: "string option"
  download_id :: "string option"
  transcription_id :: "string option"
  space_id :: "string option"
  space_url :: "string option"
  r2_url :: "string option"
  filename :: "string option"
  available :: "bool option"
  space_info :: "SpaceInfo option"
  r2_configured :: "bool option"
  spaces :: "SpaceInfo list option"

record Config =
  apiUrl :: string
  timeout :: "nat option"

text \<open>A thrown value: an \<open>Error\<close> instance with its message, or anything else.\<close>

datatype exn = Error string | NonError

text \<open>
  The \<open>RequestInit\<close> handed to \<open>fetch\<close>. The body is the object given to
  \<open>JSON.stringify\<close>, as a list of its properties. The abort signal is left out: the
  timer is not modelled, and an abort is one of the ways in which \<open>fetch\<close> rejects.
\<close>

record RequestInit =
  http_method :: "string option"
  headers :: "(string \<times> string) list"
  body :: "(string \<times> string option) list option"

text \<open>What a \<open>Response\<close> exposes: the status code and what \<open>text()\<close> and \<open>json()\<close> settle to.\<close>

record response =
  status_code :: nat
  resp_text :: "exn + string"
  resp_json :: "exn + json_obj"

definition ok :: "response \<Rightarrow> bool" where
  "ok r = (200 \<le> status_code r \<and> status_code r \<le> 299)"

datatype fetch_outcome = Rejects exn | Responds response

text \<open>
  The backend as one invocation sees it: the outcome of the n-th \<open>fetch\<close> (from 0).
\<close>

type_synonym backend = "nat \<Rightarrow> fetch_outcome"

section \<open>Effects\<close>

text \<open>
  The observable effects are outbound requests and sleeps; the world is the log of them,
  oldest first. An asynchronous function is a function of the world that returns the
  value it resolves to, or the value it rejects with, and the extended log.
\<close>

datatype event = Fetch string RequestInit | Sleep nat

type_synonym world = "event list"

type_synonym 'a io = "world \<Rightarrow> (exn + 'a) \<times> world"

definition return_io :: "'a \<Rightarrow> 'a io" where
  "return_io x = (\<lambda>w. (Inr x, w))"

definition throw_io :: "exn \<Rightarrow> 'a io" where
  "throw_io e = (\<lambda>w. (Inl e, w))"

definition bind_io :: "'a io \<Rightarrow> ('a \<Rightarrow> 'b io) \<Rightarrow> 'b io" where
  "bind_io m f = (\<lambda>w. case m w of (Inl e, w') \<Rightarrow> (Inl e, w') | (Inr x, w') \<Rightarrow> f x w')"

text \<open>\<open>try { m } catch (error) { h(error) }\<close>\<close>

definition catch_io :: "'a io \<Rightarrow> (exn \<Rightarrow> 'a io) \<Rightarrow> 'a io" where
  "catch_io m h = (\<lambda>w. case m w of (Inl e, w') \<Rightarrow> h e w' | (Inr x, w') \<Rightarrow> (Inr x, w'))"

text \<open>The requests of a log, and the durations of its sleeps, in order.\<close>

fun calls_of :: "event list \<Rightarrow> (string \<times> RequestInit) list" where
  "calls_of [] = []"
| "calls_of (Fetch u i # es) = (u, i) # calls_of es"
| "calls_of (Sleep n # es) = calls_of es"

fun sleeps_of :: "event list \<Rightarrow> nat list" where
  "sleeps_of [] = []"
| "sleeps_of (Fetch u i # es) = sleeps_of es"
| "sleeps_of (Sleep n # es) = n # sleeps_of es"

definition fetches :: "world \<Rightarrow> nat" where
  "fetches w = length (calls_of w)"

definition fetch :: "backend \<Rightarrow> string \<Rightarrow> RequestInit \<Rightarrow> response io" where
  "fetch env u init = (\<lambda>w.
     case env (fetches w) of
       Rejects e \<Rightarrow> (Inl e, w @ [Fetch u init])
     | Responds r \<Rightarrow> (Inr r, w @ [Fetch u init]))"

text \<open>\<open>await new Promise(resolve => setTimeout(resolve, ms))\<close>\<close>

definition sleep :: "nat \<Rightarrow> unit io" where
  "sleep ms = (\<lambda>w. (Inr (), w @ [Sleep ms]))"

text \<open>Lifting a settled promise (\<open>text()\<close>, \<open>json()\<close>) into the computation.\<close>

definition settle :: "exn + 'a \<Rightarrow> 'a io" where
  "settle r = (\<lambda>w. (r, w))"

section \<open>HTTP client\<close>

definition no_options :: RequestInit where
  "no_options = \<lparr>http_method = None, headers = [], body = None\<rparr>"

text \<open>
  The catch clause of \<open>makeApiRequest\<close>: an \<open>Error\<close> is thrown again with a prefixed
  message, anything else as it is.
\<close>

fun api_failed :: "exn \<Rightarrow> exn" where
  "api_failed (Error m) = Error (''API request failed: '' @ m)"
| "api_failed NonError = NonError"

text \<open>
  The second argument of \<open>fetch\<close> in \<open>makeApiRequest\<close>: the caller's options, with the
  JSON content type ahead of the caller's headers.
\<close>

definition json_request :: "RequestInit \<Rightarrow> RequestInit" where
  "json_request options = options\<lparr>headers := (''Content-Type'', ''application/json'') # headers options\<rparr>"

definition makeApiRequest :: "backend \<Rightarrow> string \<Rightarrow> Config \<Rightarrow> RequestInit \<Rightarrow> json_obj io" where
  "makeApiRequest env u config options =
     catch_io
       (bind_io (fetch env u (json_request options))
          (\<lambda>r. if \<not> ok r
                then bind_io (settle (resp_text r))
                       (\<lambda>errorText. throw_io (Error (''HTTP '' @ show_nat (status_code r) @ '': '' @ errorText)))
                else settle (resp_json r)))
       (\<lambda>e. throw_io (api_failed e))"

section \<open>Completion poller\<close>

text \<open>
  The \<open>for\<close> loop of \<open>pollForCompletion\<close>, from the value \<open>attempt\<close> of its counter.
\<close>

function poll_loop ::
  "backend \<Rightarrow> string \<Rightarrow> Config \<Rightarrow> string list \<Rightarrow> string list \<Rightarrow> nat \<Rightarrow> nat \<Rightarrow> nat \<Rightarrow> json_obj io" where
  "poll_loop env statusUrl config completedStatuses failedStatuses maxAttempts intervalMs attempt w =
     (if attempt < maxAttempts then
        (case makeApiRequest env statusUrl config no_options w of
           (Inl e, w1) \<Rightarrow> (Inl e, w1)
         | (Inr st, w1) \<Rightarrow>
             if includes_js completedStatuses (status st) then (Inr st, w1)
             else if includes_js failedStatuses (status st)
             then (Inl (Error (''Operation failed: '' @ to_str (or_js (error st) (message st)))), w1)
             else (case sleep intervalMs w1 of
                     (Inl e, w2) \<Rightarrow> (Inl e, w2)
                   | (Inr u, w2) \<Rightarrow>
                       poll_loop env statusUrl config completedStatuses failedStatuses
                         maxAttempts intervalMs (Suc attempt) w2))
      else (Inl (Error (''Operation timed out after '' @ show_nat maxAttempts @ '' attempts'')), w))"
  by pat_completeness auto
termination
  by (relation "measure (\<lambda>(env, u, c, cs, fs, maxAttempts, i, attempt, w). maxAttempts - attempt)") auto

declare poll_loop.simps [simp del]

definition pollForCompletion ::
  "backend \<Rightarrow> string \<Rightarrow> Config \<Rightarrow> string list \<Rightarrow> string list \<Rightarrow> nat \<Rightarrow> nat \<Rightarrow> json_obj io" where
  "pollForCompletion env statusUrl config completedStatuses failedStatuses maxAttempts intervalMs =
     poll_loop env statusUrl config completedStatuses failedStatuses maxAttempts intervalMs 0"

section \<open>Tool handlers\<close>

text \<open>
  The two adapters (\<open>index.ts\<close>, which registers one handler per tool, and the Express
  variant, which dispatches in \<open>handleCallTool\<close>) run the same statements for each tool;
  they differ in where the \<open>try\<close> sits, in the text of the \<open>catch\<close> and in the
  characters of the marks. Each tool's statements are one definition below, with the
  marks as a parameter, used by both.
\<close>

definition nl :: string where
  "nl = [CHR 0x0A]"

definition quote :: string where
  "quote = [CHR 0x27]"

definition dquote :: string where
  "dquote = [CHR 0x22]"

text \<open>
  The marks that open some lines of the texts. The two source files store different
  characters for them; each is given here by the bytes of its file, in UTF-8.
\<close>

record marks =
  check_mark :: string
  cross_mark :: string
  party_mark :: string

definition index_ts_marks :: marks where
  "index_ts_marks =
     \<lparr>check_mark = [CHR 0xC3, CHR 0xA2, CHR 0xC5, CHR 0x93, CHR 0xE2, CHR 0x80, CHR 0xA6],
      cross_mark = [CHR 0xC3, CHR 0xA2, CHR 0xC5, CHR 0x92],
      party_mark = [CHR 0xC3, CHR 0xB0, CHR 0xC5, CHR 0xB8, CHR 0xC5, CHR 0xBD,
                    CHR 0xE2, CHR 0x80, CHR 0xB0]\<rparr>"

definition express_marks :: marks where
  "express_marks =
     \<lparr>check_mark = [CHR 0xE2, CHR 0x80, CHR 0x9A, CHR 0xC3, CHR 0xBA, CHR 0xC3, CHR 0x96],
      cross_mark = [CHR 0xE2, CHR 0x80, CHR 0x9A, CHR 0xC3, CHR 0xB9, CHR 0xC3, CHR 0xA5],
      party_mark = [CHR 0xEF, CHR 0xA3, CHR 0xBF, CHR 0xC3, CHR 0xBC, CHR 0xC3, CHR 0xA9,
                    CHR 0xC3, CHR 0xA2]\<rparr>"

record content_item =
  type_c :: string
  text_c :: string

record tool_result =
  content :: "content_item list"

definition text_result :: "string \<Rightarrow> tool_result" where
  "text_result t = \<lparr>content = [\<lparr>type_c = ''text'', text_c = t\<rparr>]\<rparr>"

text \<open>\<open>error instanceof Error ? error.message : 'Unknown error'\<close>\<close>

fun error_text :: "exn \<Rightarrow> string" where
  "error_text (Error m) = m"
| "error_text NonError = ''Unknown error''"

text \<open>The arguments of a tool call, each of them possibly absent.\<close>

record tool_args =
  arg_space_url :: "string option"
  arg_space_id :: "string option"
  arg_wait_for_completion :: "bool option"
  arg_format :: "string option"

subsection \<open>The space identifier of a URL\<close>

definition alnum :: "char \<Rightarrow> bool" where
  "alnum c = (let n = (of_char c :: nat) in
     (97 \<le> n \<and> n \<le> 122) \<or> (65 \<le> n \<and> n \<le> 90) \<or> (48 \<le> n \<and> n \<le> 57))"

text \<open>
  \<open>/\/spaces\/([a-zA-Z0-9]+)/\<close> tried at the start of the string: the group takes
  every alphanumeric character that follows \<open>/spaces/\<close>, and needs one.
\<close>

definition match_here :: "string \<Rightarrow> string option" where
  "match_here s =
     (if take 8 s = ''/spaces/''
      then (case takeWhile alnum (drop 8 s) of [] \<Rightarrow> None | c # cs \<Rightarrow> Some (c # cs))
      else None)"

text \<open>
  \<open>space_url.match(/\/spaces\/([a-zA-Z0-9]+)/)\<close>, then group 1 of the result: the
  pattern is tried at each position, leftmost first. The characters of the pattern are
  ASCII, so matching on the bytes of the UTF-8 encoding finds the same group.
\<close>

fun match_space_id :: "string \<Rightarrow> string option" where
  "match_space_id [] = None"
| "match_space_id (c # cs) =
     (case match_here (c # cs) of Some g \<Rightarrow> Some g | None \<Rightarrow> match_space_id cs)"

subsection \<open>check_space_availability\<close>

definition availability_text :: "marks \<Rightarrow> string \<Rightarrow> json_obj \<Rightarrow> string" where
  "availability_text mk url result =
     ''Space Availability Check for '' @ url @ '':'' @ nl @ nl @
     ''Available: '' @ (if truthy_bool (available result) then check_mark mk @ '' Yes'' else cross_mark mk @ '' No'') @ nl @
     ''Status: '' @ to_str (or_js (status result) (Some ''Unknown'')) @ nl @
     (if truthy_str (error result) then ''Error: '' @ to_str (error result) @ nl else []) @
     (case space_info result of None \<Rightarrow> []
      | Some i \<Rightarrow> ''Title: '' @ to_str (or_js (title i) (Some ''Unknown'')) @ nl) @
     (case space_info result of None \<Rightarrow> []
      | Some i \<Rightarrow> ''Creator: '' @ to_str (or_js (creator_name i) (Some ''Unknown'')) @ nl) @
     (case space_info result of None \<Rightarrow> []
      | Some i \<Rightarrow> ''State: '' @ to_str (or_js (state_s i) (Some ''Unknown'')) @ nl)"

definition check_space_availability_body :: "marks \<Rightarrow> backend \<Rightarrow> tool_args \<Rightarrow> Config \<Rightarrow> tool_result io" where
  "check_space_availability_body mk env args config =
     (case arg_space_url args of
        None \<Rightarrow> throw_io (Error (''Cannot read properties of undefined (reading '' @ quote @ ''match'' @ quote @ '')''))
      | Some url \<Rightarrow>
          (case match_space_id url of
             None \<Rightarrow> throw_io (Error ''Invalid space URL format'')
           | Some spaceId \<Rightarrow>
               bind_io (makeApiRequest env (apiUrl config @ ''/api/check-space/'' @ spaceId) config no_options)
                 (\<lambda>result. return_io (text_result (availability_text mk url result)))))"

subsection \<open>download_twitter_space\<close>

text \<open>A parameter with the default \<open>true\<close>.\<close>

fun default_true :: "bool option \<Rightarrow> bool" where
  "default_true None = True"
| "default_true (Some b) = b"

definition post_options :: "string \<Rightarrow> string option \<Rightarrow> RequestInit" where
  "post_options key v = \<lparr>http_method = Some ''POST'', headers = [], body = Some [(key, v)]\<rparr>"

definition download_twitter_space_body :: "marks \<Rightarrow> backend \<Rightarrow> tool_args \<Rightarrow> Config \<Rightarrow> tool_result io" where
  "download_twitter_space_body mk env args config =
     bind_io (makeApiRequest env (apiUrl config @ ''/api/download'') config
                (post_options ''space_url'' (arg_space_url args)))
       (\<lambda>downloadResponse.
          let result =
            ''Started download for '' @ to_str (arg_space_url args) @ nl @
            ''Download ID: '' @ to_str (download_id downloadResponse) @ nl @
            ''Status: '' @ to_str (status downloadResponse) @ nl @
            ''Message: '' @ to_str (message downloadResponse) @ nl @ nl
          in if default_true (arg_wait_for_completion args) then
               bind_io (pollForCompletion env
                          (apiUrl config @ ''/api/status/'' @ to_str (download_id downloadResponse))
                          config [''completed''] [''failed''] 60 5000)
                 (\<lambda>finalStatus. return_io (text_result
                    (result @ ''Waiting for download to complete...'' @ nl @ nl @
                     check_mark mk @ '' Download completed!'' @ nl @
                     ''Space ID: '' @ to_str (space_id finalStatus) @ nl @
                     ''Filename: '' @ to_str (filename finalStatus) @ nl @
                     (if truthy_str (r2_url finalStatus)
                      then ''R2 URL: '' @ to_str (r2_url finalStatus) @ nl else []) @
                     ''Final Message: '' @ to_str (message finalStatus) @ nl)))
             else return_io (text_result result))"

subsection \<open>transcribe_space\<close>

definition transcribe_space_body :: "marks \<Rightarrow> backend \<Rightarrow> tool_args \<Rightarrow> Config \<Rightarrow> tool_result io" where
  "transcribe_space_body mk env args config =
     bind_io (makeApiRequest env (apiUrl config @ ''/api/transcribe'') config
                (post_options ''space_id'' (arg_space_id args)))
       (\<lambda>transcribeResponse.
          let result =
            ''Started transcription for space '' @ to_str (arg_space_id args) @ nl @
            ''Transcription ID: '' @ to_str (transcription_id transcribeResponse) @ nl @
            ''Status: '' @ to_str (status transcribeResponse) @ nl @
            ''Message: '' @ to_str (message transcribeResponse) @ nl @ nl
          in if default_true (arg_wait_for_completion args) then
               bind_io (pollForCompletion env
                          (apiUrl config @ ''/api/transcription/status/'' @
                           to_str (transcription_id transcribeResponse))
                          config [''completed''] [''failed''] 120 10000)
                 (\<lambda>finalStatus. return_io (text_result
                    (result @ ''Waiting for transcription to complete...'' @ nl @ nl @
                     check_mark mk @ '' Transcription completed!'' @ nl @
                     ''Final Message: '' @ to_str (message finalStatus) @ nl @
                     nl @ ''You can now download the transcript in different formats using the '' @
                     quote @ ''get_transcript'' @ quote @ '' tool.'')))
             else return_io (text_result result))"

subsection \<open>get_transcript\<close>

text \<open>This handler calls \<open>fetch\<close> itself, without headers, and reads the body as text.\<close>

definition get_transcript_body :: "backend \<Rightarrow> tool_args \<Rightarrow> Config \<Rightarrow> tool_result io" where
  "get_transcript_body env args config =
     (let format = (case arg_format args of None \<Rightarrow> ''paragraphs'' | Some f \<Rightarrow> f) in
      bind_io (fetch env (apiUrl config @ ''/api/transcript/'' @ to_str (arg_space_id args) @
                          ''/download/'' @ format) no_options)
        (\<lambda>r. if \<not> ok r
              then bind_io (settle (resp_text r))
                     (\<lambda>errorText. throw_io (Error (''HTTP '' @ show_nat (status_code r) @ '': '' @ errorText)))
              else bind_io (settle (resp_text r))
                     (\<lambda>transcript. return_io (text_result
                        (''Transcript for space '' @ to_str (arg_space_id args) @ '' ('' @ format @
                         '' format):'' @ nl @ nl @ transcript)))))"

subsection \<open>list_spaces\<close>

text \<open>
  \<open>(audio_size / 1024 / 1024).toFixed(2)\<close>. For a byte count below \<open>2^53\<close> both
  divisions are exact in binary floating point, and \<open>toFixed\<close> takes the nearest
  multiple of a hundredth, the larger one on a tie.
\<close>

definition mb_to_fixed2 :: "53 word \<Rightarrow> string" where
  "mb_to_fixed2 n =
     (let m = (200 * unat n + 2 ^ 20) div 2 ^ 21
      in show_nat (m div 100) @ ''.'' @ [digit_char (m mod 100 div 10), digit_char (m mod 10)])"

definition space_entry :: "marks \<Rightarrow> nat \<Rightarrow> SpaceInfo \<Rightarrow> string" where
  "space_entry mk index space =
     show_nat (index + 1) @ ''. '' @ to_str (or_js (title space) (Some ''Untitled Space'')) @ nl @
     ''   ID: '' @ to_str (id_s space) @ nl @
     ''   Creator: '' @ to_str (or_js (creator_name space) (Some ''Unknown'')) @
       '' (@'' @ to_str (or_js (creator_screen_name space) (Some ''unknown'')) @ '')'' @ nl @
     ''   Date: '' @ to_str (or_js (start_date space) (Some ''Unknown'')) @ nl @
     ''   Audio: '' @ (if truthy_bool (has_audio space) then check_mark mk @ '' Available''
                       else cross_mark mk @ '' Missing'') @ nl @
     ''   Transcript: '' @ (if truthy_bool (has_transcript space) then check_mark mk @ '' Available''
                            else cross_mark mk @ '' Not transcribed'') @ nl @
     (case audio_size space of
        None \<Rightarrow> []
      | Some n \<Rightarrow> if n = 0 then [] else ''   Size: '' @ mb_to_fixed2 n @ '' MB'' @ nl) @
     ''   State: '' @ to_str (or_js (state_s space) (Some ''Unknown'')) @ nl @ nl"

text \<open>\<open>spaces.forEach((space, index) => { result += ... })\<close>, from the index given.\<close>

fun for_each_space :: "marks \<Rightarrow> nat \<Rightarrow> SpaceInfo list \<Rightarrow> string \<Rightarrow> string" where
  "for_each_space mk index [] result = result"
| "for_each_space mk index (space # rest) result =
     for_each_space mk (Suc index) rest (result @ space_entry mk index space)"

definition list_spaces_body :: "marks \<Rightarrow> backend \<Rightarrow> Config \<Rightarrow> tool_result io" where
  "list_spaces_body mk env config =
     bind_io (makeApiRequest env (apiUrl config @ ''/api/spaces'') config no_options)
       (\<lambda>r. if \<not> truthy_bool (r2_configured r)
             then return_io (text_result ''R2 storage is not configured. No spaces available.'')
             else
               let found = (case spaces r of None \<Rightarrow> [] | Some xs \<Rightarrow> xs)
               in if length found = 0
                  then return_io (text_result
                         ''No spaces found. Download some Twitter Spaces to get started!'')
                  else return_io (text_result
                         (for_each_space mk 0 found
                            (''Found '' @ show_nat (length found) @ '' spaces:'' @ nl @ nl))))"

subsection \<open>download_and_transcribe_space\<close>

definition download_and_transcribe_space_body :: "marks \<Rightarrow> backend \<Rightarrow> tool_args \<Rightarrow> Config \<Rightarrow> tool_result io" where
  "download_and_transcribe_space_body mk env args config =
     (let result0 = ''Starting complete process for '' @ to_str (arg_space_url args) @ nl @ nl in
      case arg_space_url args of
        None \<Rightarrow> throw_io (Error (''Cannot read properties of undefined (reading '' @ quote @ ''match'' @ quote @ '')''))
      | Some url \<Rightarrow>
          (case match_space_id url of
             None \<Rightarrow> throw_io (Error ''Invalid space URL format'')
           | Some spaceId \<Rightarrow>
               let result1 = result0 @ ''1. Checking space availability...'' @ nl in
               bind_io (makeApiRequest env (apiUrl config @ ''/api/check-space/'' @ spaceId) config no_options)
                 (\<lambda>availability.
                    if \<not> truthy_bool (available availability)
                    then throw_io (Error (''Space not available: '' @ to_str (error availability)))
                    else
                      let result2 = result1 @ ''   '' @ check_mark mk @ '' Space is available'' @ nl @ nl @
                                    ''2. Starting download...'' @ nl in
                      bind_io (makeApiRequest env (apiUrl config @ ''/api/download'') config
                                 (post_options ''space_url'' (Some url)))
                        (\<lambda>downloadResponse.
                           let result3 = result2 @ ''   Download ID: '' @
                                         to_str (download_id downloadResponse) @ nl in
                           bind_io (pollForCompletion env
                                      (apiUrl config @ ''/api/status/'' @
                                       to_str (download_id downloadResponse))
                                      config [''completed''] [''failed''] 60 5000)
                             (\<lambda>downloadStatus.
                                let result4 = result3 @ ''   '' @ check_mark mk @ '' Download completed'' @ nl @
                                              ''   Filename: '' @ to_str (filename downloadStatus) @ nl @ nl @
                                              ''3. Starting transcription...'' @ nl in
                                bind_io (makeApiRequest env (apiUrl config @ ''/api/transcribe'') config
                                           (post_options ''space_id'' (space_id downloadStatus)))
                                  (\<lambda>transcribeResponse.
                                     let result5 = result4 @ ''   Transcription ID: '' @
                                                   to_str (transcription_id transcribeResponse) @ nl in
                                     bind_io (pollForCompletion env
                                                (apiUrl config @ ''/api/transcription/status/'' @
                                                 to_str (transcription_id transcribeResponse))
                                                config [''completed''] [''failed''] 120 10000)
                                       (\<lambda>transcribeStatus. return_io (text_result
                                          (result5 @ ''   '' @ check_mark mk @ '' Transcription completed'' @ nl @ nl @
                                           party_mark mk @ '' Complete! Space '' @ to_str (space_id downloadStatus) @
                                           '' has been downloaded and transcribed.'' @ nl @
                                           ''Use the '' @ quote @ ''get_transcript'' @ quote @
                                           '' tool with space_id='' @ dquote @ to_str (space_id downloadStatus) @
                                           dquote @ '' to view the transcript.'')))))))))"

subsection \<open>Destructuring\<close>

text \<open>
  \<open>const { <property>, ... } = <source>\<close>, and a parameter written as such a pattern: a
  \<open>TypeError\<close> when the value destructured is undefined. The message is the engine's; it
  names the first property of the pattern and the text of the source, which is
  \<open>undefined\<close> for a parameter.
\<close>

definition destructure :: "string \<Rightarrow> string \<Rightarrow> 'a option \<Rightarrow> 'a io" where
  "destructure property var v =
     (case v of
        None \<Rightarrow> throw_io (Error (''Cannot destructure property '' @ quote @ property @ quote @
                                  '' of '' @ quote @ var @ quote @ '' as it is undefined.''))
      | Some x \<Rightarrow> return_io x)"

text \<open>The same for the empty pattern \<open>{}\<close>, which names no property.\<close>

definition destructure_empty :: "string \<Rightarrow> 'a option \<Rightarrow> 'a io" where
  "destructure_empty var v =
     (case v of
        None \<Rightarrow> throw_io (Error (''Cannot destructure '' @ quote @ var @ quote @
                                  '' as it is undefined.''))
      | Some x \<Rightarrow> return_io x)"

subsection \<open>The registered handlers of index.ts\<close>

text \<open>\<open>catch (error) { return { content: [{ type: 'text', text: `<prefix>${...}` }] } }\<close>\<close>

definition caught :: "string \<Rightarrow> exn \<Rightarrow> tool_result io" where
  "caught prefix e = return_io (text_result (prefix @ error_text e))"

text \<open>
  Each handler is \<open>async ({ ... }, config) => { try { ... } catch (error) { ... } }\<close>: the
  first parameter is destructured in the parameter list, ahead of the \<open>try\<close>, so a call
  without an arguments object rejects.
\<close>

definition check_space_availability_tool :: "backend \<Rightarrow> tool_args option \<Rightarrow> Config \<Rightarrow> tool_result io" where
  "check_space_availability_tool env args config =
     bind_io (destructure ''space_url'' ''undefined'' args)
       (\<lambda>a. catch_io (check_space_availability_body index_ts_marks env a config)
              (caught ''Error checking space availability: ''))"




definition list_spaces_tool :: "backend \<Rightarrow> tool_args option \<Rightarrow> Config \<Rightarrow> tool_result io" where
  "list_spaces_tool env args config =
     bind_io (destructure_empty ''undefined'' args)
       (\<lambda>a. catch_io (list_spaces_body index_ts_marks env config) (caught ''Error listing spaces: ''))"

definition download_and_transcribe_space_tool :: "backend \<Rightarrow> tool_args option \<Rightarrow> Config \<Rightarrow> tool_result io" where
  "download_and_transcribe_space_tool env args config =
     bind_io (destructure ''space_url'' ''undefined'' args)
       (\<lambda>a. catch_io (download_and_transcribe_space_body index_ts_marks env a config)
              (caught ''Error in complete process: ''))"

subsection \<open>handleCallTool\<close>

record call_params =
  name :: "string option"
  arguments :: "tool_args option"

text \<open>The \<open>switch (name)\<close> inside the \<open>try\<close> of \<open>handleCallTool\<close>.\<close>

definition call_tool_switch :: "backend \<Rightarrow> string option \<Rightarrow> tool_args option \<Rightarrow> Config \<Rightarrow> tool_result io" where
  "call_tool_switch env nm args config =
     (if nm = Some ''check_space_availability'' then
        bind_io (destructure ''space_url'' ''args'' args)
          (\<lambda>a. check_space_availability_body express_marks env a config)
      else if nm = Some ''download_twitter_space'' then
        bind_io (destructure ''space_url'' ''args'' args)
          (\<lambda>a. download_twitter_space_body express_marks env a config)
      else if nm = Some ''transcribe_space'' then
        bind_io (destructure ''space_id'' ''args'' args)
          (\<lambda>a. transcribe_space_body express_marks env a config)
      else if nm = Some ''get_transcript'' then
        bind_io (destructure ''space_id'' ''args'' args) (\<lambda>a. get_transcript_body env a config)
      else if nm = Some ''list_spaces'' then list_spaces_body express_marks env config
      else if nm = Some ''download_and_transcribe_space'' then
        bind_io (destructure ''space_url'' ''args'' args)
          (\<lambda>a. download_and_transcribe_space_body express_marks env a config)
      else throw_io (Error (''Unknown tool: '' @ to_str nm)))"

text \<open>
  \<open>const { name, arguments: args } = params\<close> stands ahead of the \<open>try\<close>: without
  \<open>params\<close> the function rejects.
\<close>

definition handleCallTool :: "backend \<Rightarrow> call_params option \<Rightarrow> Config \<Rightarrow> tool_result io" where
  "handleCallTool env params config =
     bind_io (destructure ''name'' ''params'' params)
       (\<lambda>p. catch_io (call_tool_switch env (name p) (arguments p) config) (caught ''Error: ''))"

section \<open>Protocol envelope\<close>

datatype rpc_id = IdString string | IdNumber int | IdNull

record JsonRpcRequest =
  req_id :: rpc_id
  req_method :: string
  req_params :: "call_params option"

record rpc_error =
  err_code :: int
  err_message :: string

text \<open>
  What a method answers with: the server's description, the names of the declared tools
  (their schemas are constants and are left out), or the result of a tool call.
\<close>

datatype rpc_result =
  Initialized string string string
| ToolList "string list"
| ToolCalled tool_result

record JsonRpcResponse =
  res_jsonrpc :: string
  res_id :: rpc_id
  res_result :: "rpc_result option"
  res_error :: "rpc_error option"

definition TOOLS :: "string list" where
  "TOOLS = [''check_space_availability'', ''download_twitter_space'', ''transcribe_space'',
            ''get_transcript'', ''list_spaces'', ''download_and_transcribe_space'']"

definition handleInitialize :: "call_params option \<Rightarrow> rpc_result io" where
  "handleInitialize params = return_io (Initialized ''2024-11-05'' ''twitter-spaces'' ''1.0.0'')"

definition handleListTools :: "rpc_result io" where
  "handleListTools = return_io (ToolList TOOLS)"

definition rpc_success :: "rpc_id \<Rightarrow> rpc_result \<Rightarrow> JsonRpcResponse" where
  "rpc_success i r = \<lparr>res_jsonrpc = ''2.0'', res_id = i, res_result = Some r, res_error = None\<rparr>"

definition rpc_failure :: "rpc_id \<Rightarrow> int \<Rightarrow> string \<Rightarrow> JsonRpcResponse" where
  "rpc_failure i c m =
     \<lparr>res_jsonrpc = ''2.0'', res_id = i, res_result = None,
      res_error = Some \<lparr>err_code = c, err_message = m\<rparr>\<rparr>"

definition handleMcpRequest :: "backend \<Rightarrow> JsonRpcRequest \<Rightarrow> Config \<Rightarrow> JsonRpcResponse io" where
  "handleMcpRequest env request config =
     catch_io
       (if req_method request = ''initialize'' then
          bind_io (handleInitialize (req_params request))
            (\<lambda>result. return_io (rpc_success (req_id request) result))
        else if req_method request = ''tools/list'' then
          bind_io handleListTools (\<lambda>result. return_io (rpc_success (req_id request) result))
        else if req_method request = ''tools/call'' then
          bind_io (handleCallTool env (req_params request) config)
            (\<lambda>result. return_io (rpc_success (req_id request) (ToolCalled result)))
        else return_io (rpc_failure (req_id request) (- 32601)
                          (''Method not found: '' @ req_method request)))
       (\<lambda>e. return_io (rpc_failure (req_id request) (- 32603)
                          (case e of Error m \<Rightarrow> m | NonError \<Rightarrow> ''Internal error'')))"

section \<open>Status sequences\<close>

text \<open>
  The snapshot that the n-th request yields, when it yields one: the backend answers
  with a 2xx status and a body that decodes.
\<close>

definition snapshot :: "backend \<Rightarrow> nat \<Rightarrow> json_obj option" where
  "snapshot env n =
     (case env n of
        Rejects e \<Rightarrow> None
      | Responds r \<Rightarrow>
          if ok r then (case resp_json r of Inl e \<Rightarrow> None | Inr s \<Rightarrow> Some s) else None)"

text \<open>A status outside both sets: the operation is still in progress.\<close>

definition in_progress :: "string list \<Rightarrow> string list \<Rightarrow> json_obj \<Rightarrow> bool" where
  "in_progress completedStatuses failedStatuses s =
     (\<not> includes_js completedStatuses (status s) \<and> \<not> includes_js failedStatuses (status s))"

text \<open>The request that every poll tick sends.\<close>

definition status_request :: RequestInit where
  "status_request = json_request no_options"

text \<open>The log of n ticks that found the operation in progress: a request, then a sleep.\<close>

fun pending_ticks :: "string \<Rightarrow> nat \<Rightarrow> nat \<Rightarrow> event list" where
  "pending_ticks u ms 0 = []"
| "pending_ticks u ms (Suc n) = Fetch u status_request # Sleep ms # pending_ticks u ms n"

section \<open>Example backends\<close>

definition snap :: "string \<Rightarrow> json_obj" where
  "snap st =
     \<lparr>status = Some st, message = None, error = None, download_id = None,
      transcription_id = None, space_id = None, space_url = None, r2_url = None,
      filename = None, available = None, space_info = None, r2_configured = None,
      spaces = None\<rparr>"

definition replies :: "json_obj \<Rightarrow> fetch_outcome" where
  "replies s = Responds \<lparr>status_code = 200, resp_text = Inr [], resp_json = Inr s\<rparr>"

definition example_config :: Config where
  "example_config = \<lparr>apiUrl = ''http://localhost:8000'', timeout = Some 30\<rparr>"

definition example_status_url :: string where
  "example_status_url = ''http://localhost:8000/api/status/d1''"

text \<open>In progress at the first request, completed from the second on.\<close>

definition completes_second :: backend where
  "completes_second n = (if n = 0 then replies (snap ''processing'') else replies (snap ''completed''))"

text \<open>In progress at the first request, failed with an error text from the second on.\<close>

definition fails_second :: backend where
  "fails_second n =
     (if n = 0 then replies (snap ''processing'')
      else replies ((snap ''failed'')\<lparr>message := Some ''Download failed'', error := Some ''no audio''\<rparr>))"

text \<open>Failed at once, with an error property that is the empty string.\<close>

definition fails_with_empty_error :: backend where
  "fails_with_empty_error n =
     replies ((snap ''failed'')\<lparr>message := Some ''disk full'', error := Some []\<rparr>)"

definition never_finishes :: backend where
  "never_finishes n = replies (snap ''processing'')"

text \<open>A status that the caller lists as completed and as failed.\<close>

definition reports_done :: backend where
  "reports_done n = replies (snap ''done'')"

text \<open>A space that the availability check reports as not available.\<close>

definition unavailable_backend :: backend where
  "unavailable_backend n =
     replies ((snap ''Ended'')\<lparr>available := Some False, error := Some ''Space has ended''\<rparr>)"

text \<open>A backend without storage: \<open>r2_configured\<close> is false and \<open>spaces\<close> is absent.\<close>

definition no_storage_backend :: backend where
  "no_storage_backend n = replies ((snap ''ok'')\<lparr>r2_configured := Some False\<rparr>)"


definition url_args :: "string \<Rightarrow> tool_args" where
  "url_args u =
     \<lparr>arg_space_url = Some u, arg_space_id = None, arg_wait_for_completion = None,
      arg_format = None\<rparr>"

definition example_space_url :: string where
  "example_space_url = ''https://x.com/i/spaces/1ZkKzYLnWOLxv''"

definition example_other_url :: string where
  "example_other_url = ''https://x.com/i/status/1234''"

definition tool_call :: "string \<Rightarrow> tool_args option \<Rightarrow> call_params" where
  "tool_call nm args = \<lparr>name = Some nm, arguments = args\<rparr>"

definition unknown_tool_request :: JsonRpcRequest where
  "unknown_tool_request =
     \<lparr>req_id = IdNumber 1, req_method = ''tools/call'',
      req_params = Some (tool_call ''delete_space'' None)\<rparr>"


definition unknown_method_request :: JsonRpcRequest where
  "unknown_method_request =
     \<lparr>req_id = IdNumber 2, req_method = ''resources/list'', req_params = None\<rparr>"

section \<open>The URL condition in the spec's words\<close>

text \<open>
  Following the spec's words: the URL contains \<open>/spaces/\<close> followed by one or more
  alphanumeric characters.
\<close>

definition has_spaces_segment :: "string \<Rightarrow> bool" where
  "has_spaces_segment url =
     (\<exists>pre seg post. url = pre @ ''/spaces/'' @ seg @ post \<and> seg \<noteq> [] \<and> (\<forall>c\<in>set seg. alnum c))"

section \<open>The log and the HTTP client\<close>



lemma calls_of_append: "calls_of (xs @ ys) = calls_of xs @ calls_of ys"
  by (induction xs rule: calls_of.induct) simp_all

lemma sleeps_of_append: "sleeps_of (xs @ ys) = sleeps_of xs @ sleeps_of ys"
  by (induction xs rule: sleeps_of.induct) simp_all

lemma fetches_append: "fetches (xs @ ys) = fetches xs + fetches ys"
  by (simp add: fetches_def calls_of_append)

lemma fetches_Fetch: "fetches (w @ [Fetch u i]) = Suc (fetches w)"
  by (simp add: fetches_append) (simp add: fetches_def)

lemma fetches_Sleep: "fetches (w @ [Sleep n]) = fetches w"
  by (simp add: fetches_append) (simp add: fetches_def)

lemma makeApiRequest_snapshot:
  "snapshot env (fetches w) = Some s \<Longrightarrow>
   makeApiRequest env u config options w = (Inr s, w @ [Fetch u (json_request options)])"
  by (auto simp: snapshot_def makeApiRequest_def catch_io_def bind_io_def fetch_def settle_def
      split: fetch_outcome.splits if_splits sum.splits)

lemma makeApiRequest_log:
  "makeApiRequest env u config options w = (r, w1) \<Longrightarrow> w1 = w @ [Fetch u (json_request options)]"
  by (auto simp: makeApiRequest_def catch_io_def bind_io_def fetch_def settle_def throw_io_def
      split: fetch_outcome.splits if_splits sum.splits)

lemma makeApiRequest_Inr:
  "makeApiRequest env u config options w = (Inr s, w1) \<Longrightarrow> snapshot env (fetches w) = Some s"
  by (auto simp: snapshot_def makeApiRequest_def catch_io_def bind_io_def fetch_def settle_def throw_io_def
      split: fetch_outcome.splits if_splits sum.splits)

lemma api_failed_shape:
  "api_failed e = NonError \<or> (\<exists>m. api_failed e = Error (''API request failed: '' @ m))"
  by (cases e) simp_all

lemma makeApiRequest_Inl:
  assumes "makeApiRequest env u config options w = (Inl e, w1)"
  shows "e = NonError \<or> (\<exists>m. e = Error (''API request failed: '' @ m))"
proof -
  from assms obtain e' where "e = api_failed e'"
    by (auto simp: makeApiRequest_def catch_io_def bind_io_def fetch_def settle_def throw_io_def
        simp del: api_failed.simps split: fetch_outcome.splits if_splits sum.splits)
  then show ?thesis using api_failed_shape[of e'] by simp
qed

section \<open>Runs of the poll loop\<close>

text \<open>
  Ticks that find the operation in progress only advance the counter and the log.
\<close>

lemma poll_loop_pending:
  "attempt + n \<le> maxAttempts \<Longrightarrow>
   \<forall>j<n. \<exists>t. snapshot env (fetches w + j) = Some t \<and> in_progress cs fs t \<Longrightarrow>
   poll_loop env u config cs fs maxAttempts ms attempt w =
   poll_loop env u config cs fs maxAttempts ms (attempt + n) (w @ pending_ticks u ms n)"
proof (induction n arbitrary: attempt w)
  case 0
  then show ?case by simp
next
  case (Suc n)
  from Suc.prems(2) obtain t where t: "snapshot env (fetches w) = Some t" "in_progress cs fs t"
    by force
  let ?w2 = "w @ [Fetch u status_request, Sleep ms]"
  have f2: "fetches ?w2 = Suc (fetches w)"
    by (simp add: fetches_append) (simp add: fetches_def)
  have step: "poll_loop env u config cs fs maxAttempts ms attempt w =
      poll_loop env u config cs fs maxAttempts ms (Suc attempt) ?w2"
    using Suc.prems(1) t
    by (subst poll_loop.simps)
       (simp add: makeApiRequest_snapshot in_progress_def sleep_def status_request_def)
  have "\<forall>j<n. \<exists>t. snapshot env (fetches ?w2 + j) = Some t \<and> in_progress cs fs t"
  proof (intro allI impI)
    fix j assume "j < n"
    then have "Suc j < Suc n" by simp
    with Suc.prems(2) have "\<exists>t. snapshot env (fetches w + Suc j) = Some t \<and> in_progress cs fs t"
      by blast
    then show "\<exists>t. snapshot env (fetches ?w2 + j) = Some t \<and> in_progress cs fs t"
      by (simp add: f2)
  qed
  moreover have "Suc attempt + n \<le> maxAttempts" using Suc.prems(1) by simp
  ultimately have "poll_loop env u config cs fs maxAttempts ms (Suc attempt) ?w2 =
      poll_loop env u config cs fs maxAttempts ms (Suc attempt + n) (?w2 @ pending_ticks u ms n)"
    by (rule Suc.IH[rotated])
  with step show ?case by simp
qed

lemma fetches_pending_ticks: "fetches (w @ pending_ticks u ms n) = fetches w + n"
  by (induction n arbitrary: w) (simp_all add: fetches_append, simp_all add: fetches_def)

lemma calls_of_pending_ticks: "calls_of (pending_ticks u ms n) = replicate n (u, status_request)"
  by (induction n) simp_all

lemma sleeps_of_pending_ticks: "sleeps_of (pending_ticks u ms n) = replicate n ms"
  by (induction n) simp_all

lemma poll_loop_completed:
  assumes "attempt + n < maxAttempts"
    and "\<forall>j<n. \<exists>t. snapshot env (fetches w + j) = Some t \<and> in_progress cs fs t"
    and "snapshot env (fetches w + n) = Some s"
    and "includes_js cs (status s)"
  shows "poll_loop env u config cs fs maxAttempts ms attempt w =
    (Inr s, w @ pending_ticks u ms n @ [Fetch u status_request])"
proof -
  have "poll_loop env u config cs fs maxAttempts ms attempt w =
      poll_loop env u config cs fs maxAttempts ms (attempt + n) (w @ pending_ticks u ms n)"
    using assms(1,2) by (intro poll_loop_pending) simp_all
  also have "\<dots> = (Inr s, (w @ pending_ticks u ms n) @ [Fetch u status_request])"
    using assms(1,3,4)
    by (subst poll_loop.simps)
       (simp add: makeApiRequest_snapshot fetches_pending_ticks status_request_def)
  finally show ?thesis by simp
qed

lemma poll_loop_failed:
  assumes "attempt + n < maxAttempts"
    and "\<forall>j<n. \<exists>t. snapshot env (fetches w + j) = Some t \<and> in_progress cs fs t"
    and "snapshot env (fetches w + n) = Some s"
    and "\<not> includes_js cs (status s)"
    and "includes_js fs (status s)"
  shows "poll_loop env u config cs fs maxAttempts ms attempt w =
    (Inl (Error (''Operation failed: '' @ to_str (or_js (error s) (message s)))),
     w @ pending_ticks u ms n @ [Fetch u status_request])"
proof -
  have "poll_loop env u config cs fs maxAttempts ms attempt w =
      poll_loop env u config cs fs maxAttempts ms (attempt + n) (w @ pending_ticks u ms n)"
    using assms(1,2) by (intro poll_loop_pending) simp_all
  also have "\<dots> = (Inl (Error (''Operation failed: '' @ to_str (or_js (error s) (message s)))),
      (w @ pending_ticks u ms n) @ [Fetch u status_request])"
    using assms(1,3,4,5)
    by (subst poll_loop.simps)
       (simp add: makeApiRequest_snapshot fetches_pending_ticks status_request_def)
  finally show ?thesis by simp
qed

lemma poll_loop_timed_out:
  assumes "attempt \<le> maxAttempts"
    and "\<forall>j<maxAttempts - attempt. \<exists>t. snapshot env (fetches w + j) = Some t \<and> in_progress cs fs t"
  shows "poll_loop env u config cs fs maxAttempts ms attempt w =
    (Inl (Error (''Operation timed out after '' @ show_nat maxAttempts @ '' attempts'')),
     w @ pending_ticks u ms (maxAttempts - attempt))"
proof -
  have "poll_loop env u config cs fs maxAttempts ms attempt w =
      poll_loop env u config cs fs maxAttempts ms (attempt + (maxAttempts - attempt))
        (w @ pending_ticks u ms (maxAttempts - attempt))"
    using assms by (intro poll_loop_pending) simp_all
  also have "\<dots> = (Inl (Error (''Operation timed out after '' @ show_nat maxAttempts @ '' attempts'')),
      w @ pending_ticks u ms (maxAttempts - attempt))"
    using assms(1) by (subst poll_loop.simps) simp
  finally show ?thesis .
qed

lemma snapshot_replies: "env n = replies s \<Longrightarrow> snapshot env n = Some s"
  by (simp add: snapshot_def replies_def ok_def)

section \<open>Properties of the completion poller\<close>

text \<open>
  C1. With \<open>maxAttempts\<close> at least 1, when the k-th snapshot of the status sequence
  (k at most \<open>maxAttempts\<close>) is the first whose status is a completed one and no earlier
  snapshot has a failed status, \<open>pollForCompletion\<close> returns that snapshot, after exactly
  k status requests and exactly k - 1 sleeps, each of the interval given.
\<close>

theorem poll_returns_first_completed:
  assumes "1 \<le> k" and "k \<le> maxAttempts"
    and "\<forall>j<k - 1. \<exists>t. snapshot env (fetches w + j) = Some t \<and> in_progress cs fs t"
    and "snapshot env (fetches w + (k - 1)) = Some s"
    and "includes_js cs (status s)"
  shows "pollForCompletion env u config cs fs maxAttempts ms w =
           (Inr s, w @ pending_ticks u ms (k - 1) @ [Fetch u status_request]) \<and>
         calls_of (pending_ticks u ms (k - 1) @ [Fetch u status_request]) =
           replicate k (u, status_request) \<and>
         sleeps_of (pending_ticks u ms (k - 1) @ [Fetch u status_request]) = replicate (k - 1) ms"
proof -
  have "0 + (k - 1) < maxAttempts" using assms(1,2) by simp
  then have run: "pollForCompletion env u config cs fs maxAttempts ms w =
      (Inr s, w @ pending_ticks u ms (k - 1) @ [Fetch u status_request])"
    unfolding pollForCompletion_def using assms(3,4,5) by (rule poll_loop_completed)
  have "replicate (k - 1) (u, status_request) @ [(u, status_request)] =
      replicate (Suc (k - 1)) (u, status_request)"
    by (simp only: replicate_append_same replicate_Suc)
  then have calls: "calls_of (pending_ticks u ms (k - 1) @ [Fetch u status_request]) =
      replicate k (u, status_request)"
    using assms(1) by (simp add: calls_of_append calls_of_pending_ticks)
  have sleeps: "sleeps_of (pending_ticks u ms (k - 1) @ [Fetch u status_request]) =
      replicate (k - 1) ms"
    by (simp add: sleeps_of_append sleeps_of_pending_ticks)
  from run calls sleeps show ?thesis by simp
qed

theorem poll_returns_first_completed_witness:
  "pollForCompletion completes_second example_status_url example_config
     [''completed''] [''failed''] 60 5000 [] =
   (Inr (snap ''completed''),
    [Fetch example_status_url status_request, Sleep 5000, Fetch example_status_url status_request])
   \<and> calls_of [Fetch example_status_url status_request, Sleep 5000,
                 Fetch example_status_url status_request] =
       [(example_status_url, status_request), (example_status_url, status_request)]
   \<and> sleeps_of [Fetch example_status_url status_request, Sleep 5000,
                  Fetch example_status_url status_request] = [5000]"
proof -
  have h1: "(1::nat) \<le> 2" and h2: "(2::nat) \<le> 60" by simp_all
  have h3: "\<forall>j<2 - 1. \<exists>t. snapshot completes_second (fetches [] + j) = Some t \<and>
      in_progress [''completed''] [''failed''] t"
    by (simp add: snapshot_replies completes_second_def in_progress_def snap_def fetches_def)
  have h4: "snapshot completes_second (fetches [] + (2 - 1)) = Some (snap ''completed'')"
    by (simp add: snapshot_replies completes_second_def fetches_def)
  have h5: "includes_js [''completed''] (status (snap ''completed''))"
    by (simp add: snap_def)
  have two: "pending_ticks example_status_url 5000 (2 - 1) =
      [Fetch example_status_url status_request, Sleep 5000]"
    by (simp add: numeral_2_eq_2)
  show ?thesis
    using poll_returns_first_completed [OF h1 h2 h3 h4 h5, of example_status_url example_config 5000]
    by (simp add: two numeral_2_eq_2)
qed

lemma or_js_carried:
  "to_str (or_js e m) = (case e of None \<Rightarrow> to_str m | Some t \<Rightarrow> if t = [] then to_str m else t)"
  by (cases e) (simp_all add: or_js_def)

lemma snapshot_never_finishes:
  "\<forall>j<n. \<exists>t. snapshot never_finishes (fetches w + j) = Some t \<and>
      in_progress [''completed''] [''failed''] t"
  by (simp add: snapshot_replies never_finishes_def in_progress_def snap_def)

lemma poll_loop_operation_failed:
  "poll_loop env u config cs fs maxAttempts ms attempt w =
     (Inl (Error (''Operation failed: '' @ rest)), w') \<Longrightarrow>
   \<exists>s. snapshot env (fetches w' - 1) = Some s \<and> includes_js fs (status s) \<and>
       \<not> includes_js cs (status s) \<and> rest = to_str (or_js (error s) (message s))"
proof (induction env u config cs fs maxAttempts ms attempt w rule: poll_loop.induct)
  case (1 env u config cs fs maxAttempts ms attempt w)
  show ?case
  proof (cases "attempt < maxAttempts")
    case False
    with "1.prems" show ?thesis
      by (subst (asm) poll_loop.simps) simp
  next
    case True
    obtain r w1 where req: "makeApiRequest env u config no_options w = (r, w1)"
      by (cases "makeApiRequest env u config no_options w")
    then have w1: "w1 = w @ [Fetch u (json_request no_options)]"
      by (rule makeApiRequest_log)
    show ?thesis
    proof (cases r)
      case (Inl e)
      with req have "e = NonError \<or> (\<exists>m. e = Error (''API request failed: '' @ m))"
        using makeApiRequest_Inl by blast
      moreover from "1.prems" True req Inl
      have "e = Error (''Operation failed: '' @ rest)"
        by (subst (asm) poll_loop.simps) simp
      ultimately show ?thesis by auto
    next
      case (Inr st)
      with req have st: "snapshot env (fetches w) = Some st"
        using makeApiRequest_Inr by blast
      consider (completed) "includes_js cs (status st)"
        | (failed) "\<not> includes_js cs (status st)" "includes_js fs (status st)"
        | (pending) "\<not> includes_js cs (status st)" "\<not> includes_js fs (status st)"
        by blast
      then show ?thesis
      proof cases
        case completed
        with "1.prems" True req Inr show ?thesis
          by (subst (asm) poll_loop.simps) simp
      next
        case failed
        with "1.prems" True req Inr
        have "rest = to_str (or_js (error st) (message st))" and "w' = w1"
          by (subst (asm) poll_loop.simps, simp)+
        with st failed w1 show ?thesis
          by (simp add: fetches_Fetch)
      next
        case pending
        with "1.prems" True req Inr
        have "poll_loop env u config cs fs maxAttempts ms (Suc attempt) (w1 @ [Sleep ms]) =
            (Inl (Error (''Operation failed: '' @ rest)), w')"
          by (subst (asm) poll_loop.simps) (simp add: sleep_def)
        moreover have "sleep ms w1 = (Inr (), w1 @ [Sleep ms])"
          by (simp add: sleep_def)
        ultimately show ?thesis
          using "1.IH" [OF True req [symmetric] Inr pending(1) pending(2)] by simp
      qed
    qed
  qed
qed

text \<open>
  C2 (as amended). When the k-th snapshot (k at most \<open>maxAttempts\<close>) is the first whose
  status is a failed one, that status is not also a completed one, and no earlier
  snapshot has a completed status, \<open>pollForCompletion\<close> fails with the error
  \<open>Operation failed: ...\<close> after exactly k status requests, and the log ends with the
  k-th request. The error carries the snapshot's \<open>error\<close> property when that is present
  and not the empty string, and its \<open>message\<close> property otherwise.
\<close>

theorem poll_fails_at_first_failed:
  assumes "1 \<le> k" and "k \<le> maxAttempts"
    and "\<forall>j<k - 1. \<exists>t. snapshot env (fetches w + j) = Some t \<and> in_progress cs fs t"
    and "snapshot env (fetches w + (k - 1)) = Some s"
    and "\<not> includes_js cs (status s)"
    and "includes_js fs (status s)"
  shows "pollForCompletion env u config cs fs maxAttempts ms w =
           (Inl (Error (''Operation failed: '' @
                   (case error s of
                      None \<Rightarrow> to_str (message s)
                    | Some t \<Rightarrow> if t = [] then to_str (message s) else t))),
            w @ pending_ticks u ms (k - 1) @ [Fetch u status_request]) \<and>
         calls_of (pending_ticks u ms (k - 1) @ [Fetch u status_request]) =
           replicate k (u, status_request)"
proof -
  have "0 + (k - 1) < maxAttempts" using assms(1,2) by simp
  then have "pollForCompletion env u config cs fs maxAttempts ms w =
      (Inl (Error (''Operation failed: '' @ to_str (or_js (error s) (message s)))),
       w @ pending_ticks u ms (k - 1) @ [Fetch u status_request])"
    unfolding pollForCompletion_def using assms(3,4,5,6) by (rule poll_loop_failed)
  then have run: "pollForCompletion env u config cs fs maxAttempts ms w =
      (Inl (Error (''Operation failed: '' @
              (case error s of
                 None \<Rightarrow> to_str (message s)
               | Some t \<Rightarrow> if t = [] then to_str (message s) else t))),
       w @ pending_ticks u ms (k - 1) @ [Fetch u status_request])"
    by (simp only: or_js_carried)
  have "replicate (k - 1) (u, status_request) @ [(u, status_request)] =
      replicate (Suc (k - 1)) (u, status_request)"
    by (simp only: replicate_append_same replicate_Suc)
  then have calls: "calls_of (pending_ticks u ms (k - 1) @ [Fetch u status_request]) =
      replicate k (u, status_request)"
    using assms(1) by (simp add: calls_of_append calls_of_pending_ticks)
  from run calls show ?thesis by simp
qed

theorem poll_fails_at_first_failed_witness:
  "pollForCompletion fails_second example_status_url example_config
     [''completed''] [''failed''] 60 5000 [] =
   (Inl (Error ''Operation failed: no audio''),
    [Fetch example_status_url status_request, Sleep 5000, Fetch example_status_url status_request])
   \<and> calls_of [Fetch example_status_url status_request, Sleep 5000,
                 Fetch example_status_url status_request] =
       [(example_status_url, status_request), (example_status_url, status_request)]"
proof -
  let ?s = "(snap ''failed'')\<lparr>message := Some ''Download failed'', error := Some ''no audio''\<rparr>"
  have h1: "(1::nat) \<le> 2" and h2: "(2::nat) \<le> 60" by simp_all
  have h3: "\<forall>j<2 - 1. \<exists>t. snapshot fails_second (fetches [] + j) = Some t \<and>
      in_progress [''completed''] [''failed''] t"
    by (simp add: snapshot_replies fails_second_def in_progress_def snap_def fetches_def)
  have h4: "snapshot fails_second (fetches [] + (2 - 1)) = Some ?s"
    by (simp add: snapshot_replies fails_second_def fetches_def)
  have h5: "\<not> includes_js [''completed''] (status ?s)"
    by (simp add: snap_def)
  have h6: "includes_js [''failed''] (status ?s)"
    by (simp add: snap_def)
  have two: "pending_ticks example_status_url 5000 (2 - 1) =
      [Fetch example_status_url status_request, Sleep 5000]"
    by (simp add: numeral_2_eq_2)
  show ?thesis
    using poll_fails_at_first_failed [OF h1 h2 h3 h4 h5 h6, of example_status_url example_config 5000]
    by (simp add: two numeral_2_eq_2 snap_def)
qed

text \<open>
  C2 as stated fails: a failed snapshot whose \<open>error\<close> property is present and is the
  empty string gives an error that carries the \<open>message\<close> property; and a first
  snapshot whose status is listed as failed and also as completed is returned, with no
  error.
\<close>

theorem poll_empty_error_counterexample:
  "error ((snap ''failed'')\<lparr>message := Some ''disk full'', error := Some []\<rparr>) = Some [] \<and>
   snapshot fails_with_empty_error 0 =
     Some ((snap ''failed'')\<lparr>message := Some ''disk full'', error := Some []\<rparr>) \<and>
   fst (pollForCompletion fails_with_empty_error example_status_url example_config
          [''completed''] [''failed''] 60 5000 []) = Inl (Error ''Operation failed: disk full'') \<and>
   fst (pollForCompletion fails_with_empty_error example_status_url example_config
          [''completed''] [''failed''] 60 5000 []) \<noteq> Inl (Error (''Operation failed: '' @ [])) \<and>
   snapshot reports_done 0 = Some (snap ''done'') \<and>
   includes_js [''done'', ''failed''] (status (snap ''done'')) \<and>
   fst (pollForCompletion reports_done example_status_url example_config
          [''done''] [''done'', ''failed''] 60 5000 []) = Inr (snap ''done'')"
proof -
  let ?s = "(snap ''failed'')\<lparr>message := Some ''disk full'', error := Some []\<rparr>"
  have s0: "snapshot fails_with_empty_error (fetches [] + 0) = Some ?s"
    by (simp add: snapshot_replies fails_with_empty_error_def)
  have "poll_loop fails_with_empty_error example_status_url example_config
          [''completed''] [''failed''] 60 5000 0 [] =
        (Inl (Error (''Operation failed: '' @ to_str (or_js (error ?s) (message ?s)))),
         [] @ pending_ticks example_status_url 5000 0 @ [Fetch example_status_url status_request])"
    by (rule poll_loop_failed [OF _ _ s0]) (simp_all add: snap_def)
  then have failed: "fst (pollForCompletion fails_with_empty_error example_status_url example_config
          [''completed''] [''failed''] 60 5000 []) = Inl (Error ''Operation failed: disk full'')"
    by (simp add: pollForCompletion_def or_js_def snap_def)
  have first: "snapshot fails_with_empty_error 0 = Some ?s"
    using s0 by (simp add: fetches_def)
  have d0: "snapshot reports_done (fetches [] + 0) = Some (snap ''done'')"
    by (simp add: snapshot_replies reports_done_def)
  have "poll_loop reports_done example_status_url example_config
          [''done''] [''done'', ''failed''] 60 5000 0 [] =
        (Inr (snap ''done''),
         [] @ pending_ticks example_status_url 5000 0 @ [Fetch example_status_url status_request])"
    by (rule poll_loop_completed [OF _ _ d0]) (simp_all add: snap_def)
  then have returned: "fst (pollForCompletion reports_done example_status_url example_config
          [''done''] [''done'', ''failed''] 60 5000 []) = Inr (snap ''done'')"
    by (simp add: pollForCompletion_def)
  have both: "snapshot reports_done 0 = Some (snap ''done'')"
    using d0 by (simp add: fetches_def)
  from failed first returned both show ?thesis by (simp add: snap_def)
qed

text \<open>
  C3. When each of the first \<open>maxAttempts\<close> snapshots has a status outside both sets,
  \<open>pollForCompletion\<close> fails with the error \<open>Operation timed out after N attempts\<close>,
  N being \<open>maxAttempts\<close>, after exactly \<open>maxAttempts\<close> status requests.
\<close>

theorem poll_times_out:
  assumes "\<forall>j<maxAttempts. \<exists>t. snapshot env (fetches w + j) = Some t \<and> in_progress cs fs t"
  shows "pollForCompletion env u config cs fs maxAttempts ms w =
           (Inl (Error (''Operation timed out after '' @ show_nat maxAttempts @ '' attempts'')),
            w @ pending_ticks u ms maxAttempts) \<and>
         calls_of (pending_ticks u ms maxAttempts) = replicate maxAttempts (u, status_request)"
  using poll_loop_timed_out [of 0 maxAttempts env w cs fs u config ms] assms
  by (simp add: pollForCompletion_def calls_of_pending_ticks)

theorem poll_times_out_witness:
  "pollForCompletion never_finishes example_status_url example_config
     [''completed''] [''failed''] 3 5000 [] =
   (Inl (Error ''Operation timed out after 3 attempts''),
    [Fetch example_status_url status_request, Sleep 5000,
     Fetch example_status_url status_request, Sleep 5000,
     Fetch example_status_url status_request, Sleep 5000])
   \<and> calls_of (pending_ticks example_status_url 5000 3) =
       [(example_status_url, status_request), (example_status_url, status_request),
        (example_status_url, status_request)]"
proof -
  have three: "pending_ticks example_status_url 5000 3 =
      [Fetch example_status_url status_request, Sleep 5000,
       Fetch example_status_url status_request, Sleep 5000,
       Fetch example_status_url status_request, Sleep 5000]"
    by (simp add: numeral_3_eq_3)
  have shown: "show_nat 3 = ''3''"
    by code_simp
  show ?thesis
    using poll_times_out [where env = never_finishes and maxAttempts = 3 and w = "[]"
        and cs = "[''completed'']" and fs = "[''failed'']"
        and u = example_status_url and config = example_config and ms = 5000]
      snapshot_never_finishes [of 3 "[]"]
    by (simp add: three shown)
qed

text \<open>
  C9. A snapshot whose status is listed both as completed and as failed is returned as
  a success, and whenever \<open>pollForCompletion\<close> fails with \<open>Operation failed: ...\<close>, the
  snapshot of its last request has a status that is failed and not completed.
\<close>

theorem completed_check_precedes_failed_check:
  "(1 \<le> k \<and> k \<le> maxAttempts \<and>
    (\<forall>j<k - 1. \<exists>t. snapshot env (fetches w + j) = Some t \<and> in_progress cs fs t) \<and>
    snapshot env (fetches w + (k - 1)) = Some s \<and>
    includes_js cs (status s) \<and> includes_js fs (status s) \<longrightarrow>
    pollForCompletion env u config cs fs maxAttempts ms w =
      (Inr s, w @ pending_ticks u ms (k - 1) @ [Fetch u status_request])) \<and>
   (pollForCompletion env u config cs fs maxAttempts ms w =
      (Inl (Error (''Operation failed: '' @ rest)), w') \<longrightarrow>
    (\<exists>t. snapshot env (fetches w' - 1) = Some t \<and> includes_js fs (status t) \<and>
         \<not> includes_js cs (status t)))"
proof (intro conjI impI)
  assume a: "1 \<le> k \<and> k \<le> maxAttempts \<and>
    (\<forall>j<k - 1. \<exists>t. snapshot env (fetches w + j) = Some t \<and> in_progress cs fs t) \<and>
    snapshot env (fetches w + (k - 1)) = Some s \<and>
    includes_js cs (status s) \<and> includes_js fs (status s)"
  then have k: "1 \<le> k" "k \<le> maxAttempts"
    and pending: "\<forall>j<k - 1. \<exists>t. snapshot env (fetches w + j) = Some t \<and> in_progress cs fs t"
    and s: "snapshot env (fetches w + (k - 1)) = Some s" "includes_js cs (status s)"
    by blast+
  from k have "0 + (k - 1) < maxAttempts" by arith
  then show "pollForCompletion env u config cs fs maxAttempts ms w =
      (Inr s, w @ pending_ticks u ms (k - 1) @ [Fetch u status_request])"
    unfolding pollForCompletion_def using pending s by (rule poll_loop_completed)
next
  assume "pollForCompletion env u config cs fs maxAttempts ms w =
      (Inl (Error (''Operation failed: '' @ rest)), w')"
  then show "\<exists>t. snapshot env (fetches w' - 1) = Some t \<and> includes_js fs (status t) \<and>
         \<not> includes_js cs (status t)"
    unfolding pollForCompletion_def using poll_loop_operation_failed by blast
qed

theorem completed_check_precedes_failed_check_witness:
  "pollForCompletion reports_done example_status_url example_config
     [''done''] [''done'', ''failed''] 60 5000 [] =
   (Inr (snap ''done''), [Fetch example_status_url status_request]) \<and>
   (\<exists>t. snapshot fails_second
          (fetches [Fetch example_status_url status_request, Sleep 5000,
                    Fetch example_status_url status_request] - 1) = Some t \<and>
        includes_js [''failed''] (status t) \<and> \<not> includes_js [''completed''] (status t))"
proof -
  let ?s = "(snap ''failed'')\<lparr>message := Some ''Download failed'', error := Some ''no audio''\<rparr>"
  have both: "1 \<le> (1::nat) \<and> (1::nat) \<le> 60 \<and>
      (\<forall>j<1 - 1. \<exists>t. snapshot reports_done (fetches [] + j) = Some t \<and>
          in_progress [''done''] [''done'', ''failed''] t) \<and>
      snapshot reports_done (fetches [] + (1 - 1)) = Some (snap ''done'') \<and>
      includes_js [''done''] (status (snap ''done'')) \<and>
      includes_js [''done'', ''failed''] (status (snap ''done''))"
    by (simp add: snapshot_replies reports_done_def snap_def)
  have first: "pollForCompletion reports_done example_status_url example_config
       [''done''] [''done'', ''failed''] 60 5000 [] =
     (Inr (snap ''done''), [Fetch example_status_url status_request])"
    using completed_check_precedes_failed_check [where k = 1 and maxAttempts = 60
        and env = reports_done and w = "[]" and cs = "[''done'']" and fs = "[''done'', ''failed'']"
        and s = "snap ''done''" and u = example_status_url and config = example_config
        and ms = 5000] both
    by simp
  have p: "\<forall>j<1. \<exists>t. snapshot fails_second (fetches [] + j) = Some t \<and>
      in_progress [''completed''] [''failed''] t"
    by (simp add: snapshot_replies fails_second_def in_progress_def snap_def fetches_def)
  have s1: "snapshot fails_second (fetches [] + 1) = Some ?s"
    by (simp add: snapshot_replies fails_second_def fetches_def)
  have "poll_loop fails_second example_status_url example_config
          [''completed''] [''failed''] 60 5000 0 [] =
        (Inl (Error (''Operation failed: '' @ to_str (or_js (error ?s) (message ?s)))),
         [] @ pending_ticks example_status_url 5000 1 @ [Fetch example_status_url status_request])"
    by (rule poll_loop_failed [OF _ p s1]) (simp_all add: snap_def)
  then have failed: "pollForCompletion fails_second example_status_url example_config
       [''completed''] [''failed''] 60 5000 [] =
     (Inl (Error (''Operation failed: '' @ ''no audio'')),
      [Fetch example_status_url status_request, Sleep 5000,
       Fetch example_status_url status_request])"
    by (simp add: pollForCompletion_def or_js_def snap_def)
  have second: "\<exists>t. snapshot fails_second
          (fetches [Fetch example_status_url status_request, Sleep 5000,
                    Fetch example_status_url status_request] - 1) = Some t \<and>
        includes_js [''failed''] (status t) \<and> \<not> includes_js [''completed''] (status t)"
    using completed_check_precedes_failed_check [where env = fails_second and maxAttempts = 60
        and w = "[]" and cs = "[''completed'']" and fs = "[''failed'']"
        and u = example_status_url and config = example_config and ms = 5000
        and rest = "''no audio''"
        and w' = "[Fetch example_status_url status_request, Sleep 5000,
                   Fetch example_status_url status_request]"] failed
    by blast
  from first second show ?thesis by simp
qed

text \<open>
  C10. A tick that finds the operation in progress sleeps for the interval before the
  counter advances, the last tick included; so when every tick finds the operation in
  progress there are exactly \<open>maxAttempts\<close> sleeps, and the last event before the timeout
  error is a sleep.
\<close>

theorem poll_sleeps_after_every_pending_tick:
  "(attempt < maxAttempts \<and> snapshot env (fetches w) = Some t \<and> in_progress cs fs t \<longrightarrow>
    poll_loop env u config cs fs maxAttempts ms attempt w =
    poll_loop env u config cs fs maxAttempts ms (Suc attempt)
      (w @ [Fetch u status_request, Sleep ms])) \<and>
   ((\<forall>j<maxAttempts. \<exists>t. snapshot env (fetches w + j) = Some t \<and> in_progress cs fs t) \<longrightarrow>
    pollForCompletion env u config cs fs maxAttempts ms w =
      (Inl (Error (''Operation timed out after '' @ show_nat maxAttempts @ '' attempts'')),
       w @ pending_ticks u ms maxAttempts) \<and>
    sleeps_of (pending_ticks u ms maxAttempts) = replicate maxAttempts ms \<and>
    (0 < maxAttempts \<longrightarrow> last (w @ pending_ticks u ms maxAttempts) = Sleep ms))"
proof (intro conjI impI)
  assume a: "attempt < maxAttempts \<and> snapshot env (fetches w) = Some t \<and> in_progress cs fs t"
  then have "attempt + 1 \<le> maxAttempts"
    and "\<forall>j<1. \<exists>t. snapshot env (fetches w + j) = Some t \<and> in_progress cs fs t"
    by auto
  then have "poll_loop env u config cs fs maxAttempts ms attempt w =
      poll_loop env u config cs fs maxAttempts ms (attempt + 1) (w @ pending_ticks u ms 1)"
    by (rule poll_loop_pending)
  then show "poll_loop env u config cs fs maxAttempts ms attempt w =
      poll_loop env u config cs fs maxAttempts ms (Suc attempt)
        (w @ [Fetch u status_request, Sleep ms])"
    by simp
next
  assume "\<forall>j<maxAttempts. \<exists>t. snapshot env (fetches w + j) = Some t \<and> in_progress cs fs t"
  then show "pollForCompletion env u config cs fs maxAttempts ms w =
      (Inl (Error (''Operation timed out after '' @ show_nat maxAttempts @ '' attempts'')),
       w @ pending_ticks u ms maxAttempts)"
    using poll_loop_timed_out [of 0 maxAttempts env w cs fs u config ms]
    by (simp add: pollForCompletion_def)
next
  show "sleeps_of (pending_ticks u ms maxAttempts) = replicate maxAttempts ms"
    by (rule sleeps_of_pending_ticks)
next
  assume "0 < maxAttempts"
  then obtain n where n: "maxAttempts = Suc n"
    by (cases maxAttempts) simp_all
  have "last (w @ pending_ticks u ms (Suc n)) = Sleep ms"
    by (induction n) simp_all
  with n show "last (w @ pending_ticks u ms maxAttempts) = Sleep ms"
    by simp
qed

theorem poll_sleeps_after_every_pending_tick_witness:
  "poll_loop never_finishes example_status_url example_config [''completed''] [''failed''] 3 5000 2 [] =
   poll_loop never_finishes example_status_url example_config [''completed''] [''failed''] 3 5000 3
     [Fetch example_status_url status_request, Sleep 5000] \<and>
   pollForCompletion never_finishes example_status_url example_config
     [''completed''] [''failed''] 3 5000 [] =
   (Inl (Error ''Operation timed out after 3 attempts''),
    [Fetch example_status_url status_request, Sleep 5000,
     Fetch example_status_url status_request, Sleep 5000,
     Fetch example_status_url status_request, Sleep 5000]) \<and>
   sleeps_of (pending_ticks example_status_url 5000 3) = [5000, 5000, 5000] \<and>
   last [Fetch example_status_url status_request, Sleep 5000,
         Fetch example_status_url status_request, Sleep 5000,
         Fetch example_status_url status_request, Sleep 5000] = Sleep 5000"
proof -
  have three: "pending_ticks example_status_url 5000 3 =
      [Fetch example_status_url status_request, Sleep 5000,
       Fetch example_status_url status_request, Sleep 5000,
       Fetch example_status_url status_request, Sleep 5000]"
    by (simp add: numeral_3_eq_3)
  have shown: "show_nat 3 = ''3''"
    by code_simp
  have final: "(2::nat) < 3 \<and> snapshot never_finishes (fetches []) = Some (snap ''processing'') \<and>
      in_progress [''completed''] [''failed''] (snap ''processing'')"
    by (simp add: snapshot_replies never_finishes_def in_progress_def snap_def)
  have tick: "poll_loop never_finishes example_status_url example_config
        [''completed''] [''failed''] 3 5000 2 [] =
      poll_loop never_finishes example_status_url example_config [''completed''] [''failed''] 3 5000 3
        [Fetch example_status_url status_request, Sleep 5000]"
    using poll_sleeps_after_every_pending_tick [where env = never_finishes and maxAttempts = 3
        and attempt = 2 and w = "[]" and t = "snap ''processing''"
        and cs = "[''completed'']" and fs = "[''failed'']"
        and u = example_status_url and config = example_config and ms = 5000] final
    by (simp add: numeral_3_eq_3)
  have run: "pollForCompletion never_finishes example_status_url example_config
        [''completed''] [''failed''] 3 5000 [] =
      (Inl (Error ''Operation timed out after 3 attempts''),
       [Fetch example_status_url status_request, Sleep 5000,
        Fetch example_status_url status_request, Sleep 5000,
        Fetch example_status_url status_request, Sleep 5000])"
    using poll_sleeps_after_every_pending_tick [where env = never_finishes and maxAttempts = 3
        and attempt = 2 and w = "[]" and t = "snap ''processing''"
        and cs = "[''completed'']" and fs = "[''failed'']"
        and u = example_status_url and config = example_config and ms = 5000]
      snapshot_never_finishes [of 3 "[]"]
    by (simp add: three shown)
  from tick run show ?thesis
    by (simp add: three)
qed

section \<open>Matching the space identifier\<close>

lemma match_here_None_iff:
  "match_here s = None \<longleftrightarrow>
   \<not> (\<exists>seg post. s = ''/spaces/'' @ seg @ post \<and> seg \<noteq> [] \<and> (\<forall>c\<in>set seg. alnum c))"
proof
  assume none: "match_here s = None"
  show "\<not> (\<exists>seg post. s = ''/spaces/'' @ seg @ post \<and> seg \<noteq> [] \<and> (\<forall>c\<in>set seg. alnum c))"
  proof
    assume "\<exists>seg post. s = ''/spaces/'' @ seg @ post \<and> seg \<noteq> [] \<and> (\<forall>c\<in>set seg. alnum c)"
    then obtain seg post where s: "s = ''/spaces/'' @ seg @ post" and seg: "seg \<noteq> []" "\<forall>c\<in>set seg. alnum c"
      by blast
    from seg have "takeWhile alnum (seg @ post) = seg @ takeWhile alnum post"
      by (simp add: takeWhile_append2)
    with seg(1) have "takeWhile alnum (seg @ post) \<noteq> []" by simp
    with s have "match_here s \<noteq> None"
      by (auto simp: match_here_def split: list.splits)
    with none show False by simp
  qed
next
  assume no: "\<not> (\<exists>seg post. s = ''/spaces/'' @ seg @ post \<and> seg \<noteq> [] \<and> (\<forall>c\<in>set seg. alnum c))"
  show "match_here s = None"
  proof (rule ccontr)
    assume "match_here s \<noteq> None"
    then have t: "take 8 s = ''/spaces/''" and g: "takeWhile alnum (drop 8 s) \<noteq> []"
      by (auto simp: match_here_def split: if_splits list.splits)
    have "s = take 8 s @ takeWhile alnum (drop 8 s) @ dropWhile alnum (drop 8 s)"
      by simp
    with t have "s = ''/spaces/'' @ takeWhile alnum (drop 8 s) @ dropWhile alnum (drop 8 s)"
      by simp
    moreover have "\<forall>c\<in>set (takeWhile alnum (drop 8 s)). alnum c"
      by (auto dest: set_takeWhileD)
    ultimately show False using g no by blast
  qed
qed

lemma has_spaces_segment_Nil: "\<not> has_spaces_segment []"
  by (simp add: has_spaces_segment_def)

lemma has_spaces_segment_Cons:
  "has_spaces_segment (x # xs) \<longleftrightarrow> match_here (x # xs) \<noteq> None \<or> has_spaces_segment xs"
proof
  assume "has_spaces_segment (x # xs)"
  then obtain pre seg post where d: "x # xs = pre @ ''/spaces/'' @ seg @ post"
    and seg: "seg \<noteq> []" "\<forall>c\<in>set seg. alnum c"
    unfolding has_spaces_segment_def by blast
  show "match_here (x # xs) \<noteq> None \<or> has_spaces_segment xs"
  proof (cases pre)
    case Nil
    with d seg have "\<exists>seg post. x # xs = ''/spaces/'' @ seg @ post \<and> seg \<noteq> [] \<and> (\<forall>c\<in>set seg. alnum c)"
      by auto
    then show ?thesis using match_here_None_iff by blast
  next
    case (Cons y pre')
    with d have "xs = pre' @ ''/spaces/'' @ seg @ post" by simp
    with seg show ?thesis unfolding has_spaces_segment_def by blast
  qed
next
  assume "match_here (x # xs) \<noteq> None \<or> has_spaces_segment xs"
  then show "has_spaces_segment (x # xs)"
  proof
    assume "match_here (x # xs) \<noteq> None"
    then obtain seg post where "x # xs = [] @ ''/spaces/'' @ seg @ post" "seg \<noteq> []" "\<forall>c\<in>set seg. alnum c"
      using match_here_None_iff by auto
    then show ?thesis unfolding has_spaces_segment_def by blast
  next
    assume "has_spaces_segment xs"
    then obtain pre seg post where "xs = pre @ ''/spaces/'' @ seg @ post" "seg \<noteq> []" "\<forall>c\<in>set seg. alnum c"
      unfolding has_spaces_segment_def by blast
    then have "x # xs = (x # pre) @ ''/spaces/'' @ seg @ post" by simp
    with \<open>seg \<noteq> []\<close> \<open>\<forall>c\<in>set seg. alnum c\<close> show ?thesis
      unfolding has_spaces_segment_def by blast
  qed
qed

lemma match_space_id_None_iff: "match_space_id url = None \<longleftrightarrow> \<not> has_spaces_segment url"
proof (induction url)
  case Nil
  show ?case by (simp add: has_spaces_segment_Nil)
next
  case (Cons x xs)
  show ?case
  proof (cases "match_here (x # xs)")
    case None
    with Cons show ?thesis by (simp add: has_spaces_segment_Cons)
  next
    case (Some g)
    then show ?thesis by (simp add: has_spaces_segment_Cons)
  qed
qed

section \<open>Handler lemmas\<close>

lemma match_example_space_url: "match_space_id example_space_url = Some ''1ZkKzYLnWOLxv''"
  by (simp add: example_space_url_def match_here_def alnum_def)

lemma match_example_other_url: "match_space_id example_other_url = None"
  by (simp add: example_other_url_def match_here_def alnum_def)

lemma catch_caught:
  "catch_io m (caught prefix) w =
     (case m w of
        (Inl e, w') \<Rightarrow> (Inr (text_result (prefix @ error_text e)), w')
      | (Inr x, w') \<Rightarrow> (Inr x, w'))"
  by (cases "m w") (simp add: catch_io_def caught_def return_io_def split: sum.splits)











lemma destructure_Some: "bind_io (destructure property var (Some a)) f = f a"
  by (simp add: destructure_def bind_io_def return_io_def)

lemma destructure_empty_Some: "bind_io (destructure_empty var (Some a)) f = f a"
  by (simp add: destructure_empty_def bind_io_def return_io_def)




lemma handleCallTool_Some:
  "handleCallTool env (Some p) config =
     catch_io (call_tool_switch env (name p) (arguments p) config) (caught ''Error: '')"
  by (simp add: handleCallTool_def destructure_Some)



lemma check_body_no_match:
  "arg_space_url args = Some url \<Longrightarrow> match_space_id url = None \<Longrightarrow>
   check_space_availability_body mk env args config w = (Inl (Error ''Invalid space URL format''), w)"
  by (simp add: check_space_availability_body_def throw_io_def)

lemma workflow_body_unavailable:
  assumes "arg_space_url args = Some url" and "match_space_id url = Some spaceId"
    and "snapshot env (fetches w) = Some a" and "\<not> truthy_bool (available a)"
  shows "download_and_transcribe_space_body mk env args config w =
    (Inl (Error (''Space not available: '' @ to_str (error a))),
     w @ [Fetch (apiUrl config @ ''/api/check-space/'' @ spaceId) status_request])"
  using assms
  by (simp add: download_and_transcribe_space_body_def bind_io_def throw_io_def
      makeApiRequest_snapshot status_request_def Let_def)

lemma list_spaces_body_no_storage:
  assumes "snapshot env (fetches w) = Some r" and "\<not> truthy_bool (r2_configured r)"
  shows "list_spaces_body mk env config w =
    (Inr (text_result ''R2 storage is not configured. No spaces available.''),
     w @ [Fetch (apiUrl config @ ''/api/spaces'') status_request])"
  using assms
  by (simp add: list_spaces_body_def bind_io_def return_io_def makeApiRequest_snapshot
      status_request_def)

lemma status_request_record:
  "status_request =
     \<lparr>http_method = None, headers = [(''Content-Type'', ''application/json'')], body = None\<rparr>"
  by (simp add: status_request_def json_request_def no_options_def)

lemma to_str_cases: "to_str v = (case v of None \<Rightarrow> ''undefined'' | Some s \<Rightarrow> s)"
  by (cases v) simp_all

lemma switch_check:
  "call_tool_switch env (Some ''check_space_availability'') (Some args) config =
   check_space_availability_body express_marks env args config"
  by (simp add: call_tool_switch_def destructure_Some)

lemma switch_workflow:
  "call_tool_switch env (Some ''download_and_transcribe_space'') (Some args) config =
   download_and_transcribe_space_body express_marks env args config"
  by (simp add: call_tool_switch_def destructure_Some)

lemma switch_list_spaces:
  "call_tool_switch env (Some ''list_spaces'') args config = list_spaces_body express_marks env config"
  by (simp add: call_tool_switch_def)

lemma switch_unknown:
  "nm \<notin> Some ` set TOOLS \<Longrightarrow>
   call_tool_switch env nm args config w = (Inl (Error (''Unknown tool: '' @ to_str nm)), w)"
  by (simp add: call_tool_switch_def TOOLS_def throw_io_def)


section \<open>Properties of the tool handlers\<close>




text \<open>
  C5. When the URL names a space and the availability check answers with
  \<open>available = false\<close>, \<open>download_and_transcribe_space\<close> adds exactly one request to the
  log, the availability check, and the text item of its result is the handler's error
  prefix, \<open>Space not available: \<close> and the error of that answer.
\<close>

theorem workflow_stops_at_unavailable_space:
  assumes "arg_space_url args = Some url" and "match_space_id url = Some spaceId"
    and "snapshot env (fetches w) = Some a" and "available a = Some False"
  shows "download_and_transcribe_space_tool env (Some args) config w =
           (Inr \<lparr>content = [\<lparr>type_c = ''text'', text_c = ''Error in complete process: Space not available: '' @
               (case error a of None \<Rightarrow> ''undefined'' | Some e \<Rightarrow> e)\<rparr>]\<rparr>,
            w @ [Fetch (apiUrl config @ ''/api/check-space/'' @ spaceId)
                   \<lparr>http_method = None, headers = [(''Content-Type'', ''application/json'')], body = None\<rparr>]) \<and>
         handleCallTool env
           (Some \<lparr>name = Some ''download_and_transcribe_space'', arguments = Some args\<rparr>) config w =
           (Inr \<lparr>content = [\<lparr>type_c = ''text'', text_c = ''Error: Space not available: '' @
               (case error a of None \<Rightarrow> ''undefined'' | Some e \<Rightarrow> e)\<rparr>]\<rparr>,
            w @ [Fetch (apiUrl config @ ''/api/check-space/'' @ spaceId)
                   \<lparr>http_method = None, headers = [(''Content-Type'', ''application/json'')], body = None\<rparr>]) \<and>
         fetches (snd (download_and_transcribe_space_tool env (Some args) config w)) = fetches w + 1 \<and>
         fetches (snd (handleCallTool env
           (Some \<lparr>name = Some ''download_and_transcribe_space'', arguments = Some args\<rparr>)
           config w)) = fetches w + 1"
proof -
  from assms(4) have "\<not> truthy_bool (available a)" by simp
  with assms(1,2,3) have body: "download_and_transcribe_space_body mk env args config w =
      (Inl (Error (''Space not available: '' @ to_str (error a))),
       w @ [Fetch (apiUrl config @ ''/api/check-space/'' @ spaceId) status_request])" for mk
    by (rule workflow_body_unavailable)
  have carried: "to_str (error a) = (case error a of None \<Rightarrow> ''undefined'' | Some e \<Rightarrow> e)"
    by (rule to_str_cases)
  show ?thesis
    by (simp add: download_and_transcribe_space_tool_def destructure_Some handleCallTool_Some
        switch_workflow catch_caught body fetches_Fetch text_result_def carried
        status_request_record)
qed

theorem workflow_stops_at_unavailable_space_witness:
  "download_and_transcribe_space_tool unavailable_backend (Some (url_args example_space_url))
     example_config [] =
   (Inr \<lparr>content = [\<lparr>type_c = ''text'', text_c = ''Error in complete process: Space not available: Space has ended''\<rparr>]\<rparr>,
    [Fetch ''http://localhost:8000/api/check-space/1ZkKzYLnWOLxv''
       \<lparr>http_method = None, headers = [(''Content-Type'', ''application/json'')], body = None\<rparr>]) \<and>
   handleCallTool unavailable_backend
     (Some \<lparr>name = Some ''download_and_transcribe_space'',
            arguments = Some (url_args example_space_url)\<rparr>) example_config [] =
   (Inr \<lparr>content = [\<lparr>type_c = ''text'', text_c = ''Error: Space not available: Space has ended''\<rparr>]\<rparr>,
    [Fetch ''http://localhost:8000/api/check-space/1ZkKzYLnWOLxv''
       \<lparr>http_method = None, headers = [(''Content-Type'', ''application/json'')], body = None\<rparr>]) \<and>
   fetches (snd (download_and_transcribe_space_tool unavailable_backend
     (Some (url_args example_space_url)) example_config [])) = 1 \<and>
   fetches (snd (handleCallTool unavailable_backend
     (Some \<lparr>name = Some ''download_and_transcribe_space'',
            arguments = Some (url_args example_space_url)\<rparr>) example_config [])) = 1"
proof -
  let ?a = "(snap ''Ended'')\<lparr>available := Some False, error := Some ''Space has ended''\<rparr>"
  have h1: "arg_space_url (url_args example_space_url) = Some example_space_url"
    by (simp add: url_args_def)
  have h3: "snapshot unavailable_backend (fetches []) = Some ?a"
    by (simp add: snapshot_replies unavailable_backend_def)
  have h4: "available ?a = Some False"
    by simp
  show ?thesis
    using workflow_stops_at_unavailable_space [OF h1 match_example_space_url h3 h4, of example_config]
    by (simp add: example_config_def snap_def fetches_def)
qed

text \<open>
  C6. For a URL that does not contain \<open>/spaces/\<close> followed by one or more alphanumeric
  characters, \<open>check_space_availability\<close> raises \<open>Invalid space URL format\<close>, which the
  handler reports in the text item of its result, and the log is unchanged: no request
  is sent.
\<close>

theorem check_rejects_url_without_space_segment:
  assumes "\<not> has_spaces_segment url" and "arg_space_url args = Some url"
  shows "check_space_availability_body mk env args config w =
           (Inl (Error ''Invalid space URL format''), w) \<and>
         check_space_availability_tool env (Some args) config w =
           (Inr \<lparr>content = [\<lparr>type_c = ''text'', text_c = ''Error checking space availability: Invalid space URL format''\<rparr>]\<rparr>, w) \<and>
         handleCallTool env
           (Some \<lparr>name = Some ''check_space_availability'', arguments = Some args\<rparr>) config w =
           (Inr \<lparr>content = [\<lparr>type_c = ''text'', text_c = ''Error: Invalid space URL format''\<rparr>]\<rparr>, w)"
proof -
  from assms(1) have "match_space_id url = None"
    by (simp add: match_space_id_None_iff)
  with assms(2) have "check_space_availability_body mk env args config w =
      (Inl (Error ''Invalid space URL format''), w)" for mk
    by (rule check_body_no_match)
  then show ?thesis
    by (simp add: check_space_availability_tool_def destructure_Some handleCallTool_Some
        switch_check catch_caught text_result_def)
qed

theorem check_rejects_url_without_space_segment_witness:
  "check_space_availability_body express_marks completes_second (url_args example_other_url)
     example_config [] =
     (Inl (Error ''Invalid space URL format''), []) \<and>
   check_space_availability_tool completes_second (Some (url_args example_other_url))
     example_config [] =
     (Inr \<lparr>content = [\<lparr>type_c = ''text'', text_c = ''Error checking space availability: Invalid space URL format''\<rparr>]\<rparr>, []) \<and>
   handleCallTool completes_second
     (Some \<lparr>name = Some ''check_space_availability'',
            arguments = Some (url_args example_other_url)\<rparr>) example_config [] =
     (Inr \<lparr>content = [\<lparr>type_c = ''text'', text_c = ''Error: Invalid space URL format''\<rparr>]\<rparr>, [])"
proof -
  have h1: "\<not> has_spaces_segment example_other_url"
    using match_example_other_url by (simp add: match_space_id_None_iff)
  have h2: "arg_space_url (url_args example_other_url) = Some example_other_url"
    by (simp add: url_args_def)
  show ?thesis
    using check_rejects_url_without_space_segment
        [OF h1 h2, of express_marks completes_second example_config "[]"]
    by simp
qed

text \<open>
  C7. When the backend's answer has \<open>r2_configured\<close> equal to false, the result of
  \<open>list_spaces\<close> is the one text item \<open>R2 storage is not configured. No spaces
  available.\<close>, with no space listed, whatever the \<open>spaces\<close> property is, absent or not.
\<close>

theorem list_spaces_without_storage:
  assumes "snapshot env (fetches w) = Some r" and "r2_configured r = Some False"
  shows "list_spaces_tool env (Some args) config w =
           (Inr \<lparr>content = [\<lparr>type_c = ''text'', text_c = ''R2 storage is not configured. No spaces available.''\<rparr>]\<rparr>,
            w @ [Fetch (apiUrl config @ ''/api/spaces'')
                   \<lparr>http_method = None, headers = [(''Content-Type'', ''application/json'')], body = None\<rparr>]) \<and>
         handleCallTool env (Some \<lparr>name = Some ''list_spaces'', arguments = a\<rparr>) config w =
           (Inr \<lparr>content = [\<lparr>type_c = ''text'', text_c = ''R2 storage is not configured. No spaces available.''\<rparr>]\<rparr>,
            w @ [Fetch (apiUrl config @ ''/api/spaces'')
                   \<lparr>http_method = None, headers = [(''Content-Type'', ''application/json'')], body = None\<rparr>])"
proof -
  from assms(2) have "\<not> truthy_bool (r2_configured r)" by simp
  with assms(1) have "list_spaces_body mk env config w =
      (Inr (text_result ''R2 storage is not configured. No spaces available.''),
       w @ [Fetch (apiUrl config @ ''/api/spaces'') status_request])" for mk
    by (rule list_spaces_body_no_storage)
  then show ?thesis
    by (simp add: list_spaces_tool_def destructure_empty_Some handleCallTool_Some
        switch_list_spaces catch_caught text_result_def status_request_record)
qed

theorem list_spaces_without_storage_witness:
  "spaces ((snap ''ok'')\<lparr>r2_configured := Some False\<rparr>) = None \<and>
   list_spaces_tool no_storage_backend (Some (url_args [])) example_config [] =
     (Inr \<lparr>content = [\<lparr>type_c = ''text'', text_c = ''R2 storage is not configured. No spaces available.''\<rparr>]\<rparr>,
      [Fetch ''http://localhost:8000/api/spaces''
         \<lparr>http_method = None, headers = [(''Content-Type'', ''application/json'')], body = None\<rparr>]) \<and>
   handleCallTool no_storage_backend (Some \<lparr>name = Some ''list_spaces'', arguments = None\<rparr>)
     example_config [] =
     (Inr \<lparr>content = [\<lparr>type_c = ''text'', text_c = ''R2 storage is not configured. No spaces available.''\<rparr>]\<rparr>,
      [Fetch ''http://localhost:8000/api/spaces''
         \<lparr>http_method = None, headers = [(''Content-Type'', ''application/json'')], body = None\<rparr>])"
proof -
  let ?r = "(snap ''ok'')\<lparr>r2_configured := Some False\<rparr>"
  have h1: "snapshot no_storage_backend (fetches []) = Some ?r"
    by (simp add: snapshot_replies no_storage_backend_def)
  have h2: "r2_configured ?r = Some False"
    by simp
  show ?thesis
    using list_spaces_without_storage [OF h1 h2, of "url_args []" example_config None]
    by (simp add: example_config_def snap_def)
qed

section \<open>Properties of the protocol envelope\<close>

text \<open>
  C8 (as amended). A request with an unknown method is answered with an envelope that
  has no result and the error code -32601, and nothing is sent to the backend. A
  \<open>tools/call\<close> request with an unknown tool name is answered with an envelope that has no
  error and whose result is the text item \<open>Error: Unknown tool: <name>\<close>.
\<close>

theorem unknown_method_is_protocol_error_unknown_tool_is_text:
  "(req_method request \<notin> {''initialize'', ''tools/list'', ''tools/call''} \<longrightarrow>
    handleMcpRequest env request config w =
      (Inr \<lparr>res_jsonrpc = ''2.0'', res_id = req_id request, res_result = None,
            res_error = Some \<lparr>err_code = - 32601,
                               err_message = ''Method not found: '' @ req_method request\<rparr>\<rparr>, w)) \<and>
   (req_method request = ''tools/call'' \<and> req_params request = Some p \<and>
    name p \<notin> {Some ''check_space_availability'', Some ''download_twitter_space'',
                  Some ''transcribe_space'', Some ''get_transcript'', Some ''list_spaces'',
                  Some ''download_and_transcribe_space''} \<longrightarrow>
    handleMcpRequest env request config w =
      (Inr \<lparr>res_jsonrpc = ''2.0'', res_id = req_id request,
            res_result = Some (ToolCalled
              \<lparr>content = [\<lparr>type_c = ''text'', text_c = ''Error: Unknown tool: '' @
                (case name p of None \<Rightarrow> ''undefined'' | Some n \<Rightarrow> n)\<rparr>]\<rparr>),
            res_error = None\<rparr>, w))"
proof (intro conjI impI)
  assume "req_method request \<notin> {''initialize'', ''tools/list'', ''tools/call''}"
  then show "handleMcpRequest env request config w =
      (Inr \<lparr>res_jsonrpc = ''2.0'', res_id = req_id request, res_result = None,
            res_error = Some \<lparr>err_code = - 32601,
                               err_message = ''Method not found: '' @ req_method request\<rparr>\<rparr>, w)"
    by (simp add: handleMcpRequest_def catch_io_def return_io_def rpc_failure_def)
next
  assume a: "req_method request = ''tools/call'' \<and> req_params request = Some p \<and>
    name p \<notin> {Some ''check_space_availability'', Some ''download_twitter_space'',
                  Some ''transcribe_space'', Some ''get_transcript'', Some ''list_spaces'',
                  Some ''download_and_transcribe_space''}"
  then have "name p \<notin> Some ` set TOOLS"
    by (simp add: TOOLS_def)
  then have "call_tool_switch env (name p) (arguments p) config w =
      (Inl (Error (''Unknown tool: '' @ to_str (name p))), w)"
    by (rule switch_unknown)
  then have "handleCallTool env (Some p) config w =
      (Inr (text_result (''Error: Unknown tool: '' @ to_str (name p))), w)"
    by (simp add: handleCallTool_Some catch_caught)
  with a show "handleMcpRequest env request config w =
      (Inr \<lparr>res_jsonrpc = ''2.0'', res_id = req_id request,
            res_result = Some (ToolCalled
              \<lparr>content = [\<lparr>type_c = ''text'', text_c = ''Error: Unknown tool: '' @
                (case name p of None \<Rightarrow> ''undefined'' | Some n \<Rightarrow> n)\<rparr>]\<rparr>),
            res_error = None\<rparr>, w)"
    by (simp add: handleMcpRequest_def catch_io_def bind_io_def return_io_def rpc_success_def
        text_result_def to_str_cases)
qed

theorem unknown_method_is_protocol_error_unknown_tool_is_text_witness:
  "handleMcpRequest completes_second unknown_method_request example_config [] =
     (Inr \<lparr>res_jsonrpc = ''2.0'', res_id = IdNumber 2, res_result = None,
           res_error = Some \<lparr>err_code = - 32601,
                              err_message = ''Method not found: resources/list''\<rparr>\<rparr>, []) \<and>
   handleMcpRequest completes_second unknown_tool_request example_config [] =
     (Inr \<lparr>res_jsonrpc = ''2.0'', res_id = IdNumber 1,
           res_result = Some (ToolCalled
             \<lparr>content = [\<lparr>type_c = ''text'', text_c = ''Error: Unknown tool: delete_space''\<rparr>]\<rparr>),
           res_error = None\<rparr>, [])"
proof -
  have h1: "req_method unknown_method_request \<notin> {''initialize'', ''tools/list'', ''tools/call''}"
    by (simp add: unknown_method_request_def)
  have h2: "req_method unknown_tool_request = ''tools/call'' \<and>
      req_params unknown_tool_request = Some (tool_call ''delete_space'' None) \<and>
      name (tool_call ''delete_space'' None) \<notin> {Some ''check_space_availability'', Some ''download_twitter_space'',
                  Some ''transcribe_space'', Some ''get_transcript'', Some ''list_spaces'',
                  Some ''download_and_transcribe_space''}"
    by (simp add: unknown_tool_request_def tool_call_def)
  show ?thesis
    using unknown_method_is_protocol_error_unknown_tool_is_text
        [where request = unknown_method_request and env = completes_second
          and config = example_config and w = "[]"]
      unknown_method_is_protocol_error_unknown_tool_is_text
        [where request = unknown_tool_request and env = completes_second
          and config = example_config and w = "[]" and p = "tool_call ''delete_space'' None"]
      h1 h2
    by (simp add: unknown_method_request_def unknown_tool_request_def tool_call_def)
qed

text \<open>
  C8 as stated fails for an unknown tool name: the envelope has a result, the tool's
  text content, and no error.
\<close>

theorem unknown_tool_counterexample:
  "req_method unknown_tool_request = ''tools/call'' \<and>
   req_params unknown_tool_request = Some (tool_call ''delete_space'' None) \<and>
   ''delete_space'' \<notin> set TOOLS \<and>
   handleMcpRequest completes_second unknown_tool_request example_config [] =
     (Inr \<lparr>res_jsonrpc = ''2.0'', res_id = IdNumber 1,
           res_result = Some (ToolCalled
             \<lparr>content = [\<lparr>type_c = ''text'', text_c = ''Error: Unknown tool: delete_space''\<rparr>]\<rparr>),
           res_error = None\<rparr>, [])"
proof -
  have "call_tool_switch completes_second (Some ''delete_space'') None example_config [] =
      (Inl (Error (''Unknown tool: '' @ to_str (Some ''delete_space''))), [])"
    by (rule switch_unknown) (simp add: TOOLS_def)
  then have "handleCallTool completes_second (Some (tool_call ''delete_space'' None))
      example_config [] = (Inr (text_result ''Error: Unknown tool: delete_space''), [])"
    by (simp add: handleCallTool_Some catch_caught tool_call_def)
  then show ?thesis
    by (simp add: handleMcpRequest_def catch_io_def bind_io_def return_io_def rpc_success_def
        unknown_tool_request_def TOOLS_def text_result_def)
qed

end
